theory Spec2Isabelle
  imports Complex_Main
begin

section \<open>Tensors and the framework primitives used by loss.py\<close>

text \<open>
  The losses of \<^verbatim>\<open>src/utils/loss.py\<close> are compositions of tensor primitives. A tensor
  is modelled by its shape and its entries: a rank-1 tensor by its length and an index
  function, a rank-2 tensor by its two extents and an index function. Only indices inside
  the shape are ever read by the primitives below.

  Entries of float tensors are modelled as exact real numbers in the losses and in the
  distance computations that are compared with each other: rounding, overflow and the
  special float values are outside that part of the model. The one place there where the
  code produces a value that is no real number (the mean over zero elements, 0/0) is
  modelled as the outcome \<open>NotANumber\<close>. The helpers \<open>softmax_weights\<close> and \<open>pdist_ms\<close> are
  modelled, in addition, over binary32 values with overflow, infinities and NaN (section
  on binary32 values below), since what they return for large entries turns on these.
  Exceptions raised by the framework or by Python are outcomes of the \<open>error\<close> type.
\<close>

datatype error =
    ShapeError          \<comment> \<open>operands cannot be broadcast, or inner extents of a product differ\<close>
  | EmptyReduce         \<comment> \<open>maximum or minimum along an axis of extent 0\<close>
  | ZeroDivisionError   \<comment> \<open>Python scalar division by zero\<close>
  | ZeroDimIndex        \<comment> \<open>integer index into a tensor of rank 0\<close>
  | NotANumber          \<comment> \<open>mean over zero elements\<close>

datatype 'a tensor1 = Tensor1 (len: nat) (at1: "nat \<Rightarrow> 'a")

datatype 'a tensor2 = Tensor2 (nrows: nat) (ncols: nat) (at2: "nat \<Rightarrow> nat \<Rightarrow> 'a")

definition andThen :: "error + 'a \<Rightarrow> ('a \<Rightarrow> error + 'b) \<Rightarrow> error + 'b" where
  "andThen r f = (case r of Inl e \<Rightarrow> Inl e | Inr v \<Rightarrow> f v)"

subsection \<open>Broadcasting\<close>

text \<open>
  Two extents are compatible when they are equal or one of them is 1; the extent-1 axis is
  then replicated. \<open>bdim\<close> is the extent of the result, \<open>bidx n m i\<close> the index read in
  an operand of extent \<open>n\<close> for index \<open>i\<close> of a result of extent \<open>m\<close>.
\<close>

definition bdim :: "nat \<Rightarrow> nat \<Rightarrow> nat option" where
  "bdim a b = (if a = b then Some a else if a = 1 then Some b else if b = 1 then Some a else None)"

definition bidx :: "nat \<Rightarrow> nat \<Rightarrow> nat \<Rightarrow> nat" where
  "bidx n m i = (if n = m then i else 0)"

definition ew2 :: "('a \<Rightarrow> 'b \<Rightarrow> 'c) \<Rightarrow> 'a tensor2 \<Rightarrow> 'b tensor2 \<Rightarrow> error + 'c tensor2" where
  "ew2 f x y =
     (case (bdim (nrows x) (nrows y), bdim (ncols x) (ncols y)) of
        (Some m, Some n) \<Rightarrow>
          Inr (Tensor2 m n (\<lambda>i j. f (at2 x (bidx (nrows x) m i) (bidx (ncols x) n j))
                                    (at2 y (bidx (nrows y) m i) (bidx (ncols y) n j))))
      | _ \<Rightarrow> Inl ShapeError)"

definition ew1 :: "('a \<Rightarrow> 'b \<Rightarrow> 'c) \<Rightarrow> 'a tensor1 \<Rightarrow> 'b tensor1 \<Rightarrow> error + 'c tensor1" where
  "ew1 f x y =
     (case bdim (len x) (len y) of
        Some n \<Rightarrow> Inr (Tensor1 n (\<lambda>i. f (at1 x (bidx (len x) n i)) (at1 y (bidx (len y) n i))))
      | None \<Rightarrow> Inl ShapeError)"

text \<open>\<^verbatim>\<open>P.BroadcastTo((m, n))\<close> applied to a rank-2 and to a rank-1 tensor (the latter is
  aligned with the last axis).\<close>

definition broadcast_to :: "nat \<times> nat \<Rightarrow> 'a tensor2 \<Rightarrow> error + 'a tensor2" where
  "broadcast_to shape x =
     (case shape of (m, n) \<Rightarrow>
        if (nrows x = m \<or> nrows x = 1) \<and> (ncols x = n \<or> ncols x = 1)
        then Inr (Tensor2 m n (\<lambda>i j. at2 x (bidx (nrows x) m i) (bidx (ncols x) n j)))
        else Inl ShapeError)"

definition broadcast_to1 :: "nat \<times> nat \<Rightarrow> 'a tensor1 \<Rightarrow> error + 'a tensor2" where
  "broadcast_to1 shape v =
     (case shape of (m, n) \<Rightarrow>
        if len v = n \<or> len v = 1
        then Inr (Tensor2 m n (\<lambda>i j. at1 v (bidx (len v) n j)))
        else Inl ShapeError)"

subsection \<open>Elementwise maps, scalars, transposition, product\<close>

definition map2d :: "('a \<Rightarrow> 'b) \<Rightarrow> 'a tensor2 \<Rightarrow> 'b tensor2" where
  "map2d g x = Tensor2 (nrows x) (ncols x) (\<lambda>i j. g (at2 x i j))"

definition map1d :: "('a \<Rightarrow> 'b) \<Rightarrow> 'a tensor1 \<Rightarrow> 'b tensor1" where
  "map1d g x = Tensor1 (len x) (\<lambda>i. g (at1 x i))"

definition pow_ms :: "real tensor2 \<Rightarrow> nat \<Rightarrow> real tensor2" where
  "pow_ms x p = map2d (\<lambda>v. v ^ p) x"

definition sqrt_ms :: "real tensor2 \<Rightarrow> real tensor2" where
  "sqrt_ms x = map2d sqrt x"

definition clip_by_value :: "real tensor2 \<Rightarrow> real \<Rightarrow> real \<Rightarrow> real tensor2" where
  "clip_by_value x clip_value_min clip_value_max =
     map2d (\<lambda>v. max (min v clip_value_max) clip_value_min) x"

definition transpose_ms :: "'a tensor2 \<Rightarrow> 'a tensor2" where
  "transpose_ms x = Tensor2 (ncols x) (nrows x) (\<lambda>i j. at2 x j i)"

definition matmul :: "real tensor2 \<Rightarrow> real tensor2 \<Rightarrow> error + real tensor2" where
  "matmul x y =
     (if ncols x = nrows y
      then Inr (Tensor2 (nrows x) (ncols y) (\<lambda>i j. \<Sum>l<ncols x. at2 x i l * at2 y l j))
      else Inl ShapeError)"

text \<open>The cast of a boolean tensor to \<^verbatim>\<open>int8\<close>: true is 1, false is 0. An \<^verbatim>\<open>int8\<close>
  operand of a float product is converted to float.\<close>

definition cast_int8 :: "bool tensor2 \<Rightarrow> int tensor2" where
  "cast_int8 x = map2d (\<lambda>b. if b then 1 else 0) x"

definition mul_int8 :: "real tensor2 \<Rightarrow> int tensor2 \<Rightarrow> error + real tensor2" where
  "mul_int8 x k = ew2 (\<lambda>v c. v * real_of_int c) x k"

subsection \<open>Reductions\<close>

text \<open>Reductions along axis 1 with \<^verbatim>\<open>keep_dims=True\<close>: the result has shape (m, 1).\<close>

definition reduce_sum_keep :: "real tensor2 \<Rightarrow> real tensor2" where
  "reduce_sum_keep x = Tensor2 (nrows x) 1 (\<lambda>i j. \<Sum>l<ncols x. at2 x i l)"

definition reduce_max_keep :: "real tensor2 \<Rightarrow> error + real tensor2" where
  "reduce_max_keep x =
     (if ncols x = 0 then Inl EmptyReduce
      else Inr (Tensor2 (nrows x) 1 (\<lambda>i j. Max ((\<lambda>l. at2 x i l) ` {..<ncols x}))))"

definition reduce_min_keep :: "real tensor2 \<Rightarrow> error + real tensor2" where
  "reduce_min_keep x =
     (if ncols x = 0 then Inl EmptyReduce
      else Inr (Tensor2 (nrows x) 1 (\<lambda>i j. Min ((\<lambda>l. at2 x i l) ` {..<ncols x}))))"

text \<open>\<^verbatim>\<open>squeeze()\<close> of a tensor of shape (m, 1) drops the second axis. For \<open>m = 1\<close> the
  framework drops both axes and the result has rank 0; the callers below record that case
  where it matters.\<close>

definition squeeze :: "'a tensor2 \<Rightarrow> 'a tensor1" where
  "squeeze x = Tensor1 (nrows x) (\<lambda>i. at2 x i 0)"

text \<open>\<^verbatim>\<open>P.ReduceMean(keep_dims=True)\<close> over all elements of a rank-1 tensor.\<close>

definition reduce_mean_keep :: "real tensor1 \<Rightarrow> error + real tensor1" where
  "reduce_mean_keep x =
     (if len x = 0 then Inl NotANumber
      else Inr (Tensor1 1 (\<lambda>i. (\<Sum>l<len x. at1 x l) / real (len x))))"

text \<open>\<^verbatim>\<open>x.mean(0)\<close>: the mean along axis 0, one value per column; \<^verbatim>\<open>x.sum()\<close>: the sum
  of all elements of a rank-1 tensor.\<close>

definition mean0 :: "real tensor2 \<Rightarrow> error + real tensor1" where
  "mean0 x =
     (if nrows x = 0 \<and> 0 < ncols x then Inl NotANumber
      else Inr (Tensor1 (ncols x) (\<lambda>k. (\<Sum>i<nrows x. at2 x i k) / real (nrows x))))"

definition sum_all :: "real tensor1 \<Rightarrow> real" where
  "sum_all x = (\<Sum>k<len x. at1 x k)"

text \<open>A Python scalar combined with a tensor, and the unary minus and comparison of a
  tensor.\<close>

definition smul :: "real \<Rightarrow> real tensor2 \<Rightarrow> real tensor2" where
  "smul c x = map2d (\<lambda>v. c * v) x"

definition sadd :: "real tensor2 \<Rightarrow> real \<Rightarrow> real tensor2" where
  "sadd x c = map2d (\<lambda>v. v + c) x"

definition neg :: "real tensor2 \<Rightarrow> real tensor2" where
  "neg x = map2d uminus x"

definition py_div :: "real \<Rightarrow> int \<Rightarrow> error + real" where
  "py_div a b = (if b = 0 then Inl ZeroDivisionError else Inr (a / real_of_int b))"

section \<open>Binary32 values\<close>

text \<open>
  A binary32 value is a finite number, an infinity or NaN. The result of an arithmetic
  operation on finite operands is the exact real result when its magnitude does not exceed
  the largest binary32 number \<open>float_max\<close>, and an infinity otherwise; operations on the
  special values follow IEEE 754 (\<open>inf * 0\<close>, \<open>inf - inf\<close>, \<open>0 / 0\<close> and \<open>inf / inf\<close> are NaN,
  and NaN propagates). Overflow and the special values are modelled; rounding to the nearest
  representable number, underflow and the sign of zero are not.
\<close>

datatype fval = Fin real | PInf | NInf | NaN

definition float_max :: real where
  "float_max = (2 - 1 / 2 ^ 23) * 2 ^ 127"

definition fl :: "real \<Rightarrow> fval" where
  "fl r = (if float_max < r then PInf else if r < - float_max then NInf else Fin r)"

text \<open>The arithmetic of the operations that the helpers use.\<close>

fun fadd :: "fval \<Rightarrow> fval \<Rightarrow> fval" where
  "fadd (Fin a) (Fin b) = fl (a + b)"
| "fadd NaN y = NaN"
| "fadd x NaN = NaN"
| "fadd PInf NInf = NaN"
| "fadd NInf PInf = NaN"
| "fadd PInf y = PInf"
| "fadd x PInf = PInf"
| "fadd NInf y = NInf"
| "fadd x NInf = NInf"

fun fneg :: "fval \<Rightarrow> fval" where
  "fneg (Fin a) = Fin (- a)"
| "fneg PInf = NInf"
| "fneg NInf = PInf"
| "fneg NaN = NaN"

definition fsub :: "fval \<Rightarrow> fval \<Rightarrow> fval" where
  "fsub x y = fadd x (fneg y)"

fun fmul :: "fval \<Rightarrow> fval \<Rightarrow> fval" where
  "fmul (Fin a) (Fin b) = fl (a * b)"
| "fmul NaN y = NaN"
| "fmul x NaN = NaN"
| "fmul PInf (Fin b) = (if b = 0 then NaN else if 0 < b then PInf else NInf)"
| "fmul NInf (Fin b) = (if b = 0 then NaN else if 0 < b then NInf else PInf)"
| "fmul (Fin a) PInf = (if a = 0 then NaN else if 0 < a then PInf else NInf)"
| "fmul (Fin a) NInf = (if a = 0 then NaN else if 0 < a then NInf else PInf)"
| "fmul PInf PInf = PInf"
| "fmul PInf NInf = NInf"
| "fmul NInf PInf = NInf"
| "fmul NInf NInf = PInf"

fun fdiv :: "fval \<Rightarrow> fval \<Rightarrow> fval" where
  "fdiv (Fin a) (Fin b) =
     (if b = 0 then (if a = 0 then NaN else if 0 < a then PInf else NInf) else fl (a / b))"
| "fdiv NaN y = NaN"
| "fdiv x NaN = NaN"
| "fdiv (Fin a) PInf = Fin 0"
| "fdiv (Fin a) NInf = Fin 0"
| "fdiv PInf (Fin b) = (if 0 \<le> b then PInf else NInf)"
| "fdiv NInf (Fin b) = (if 0 \<le> b then NInf else PInf)"
| "fdiv PInf PInf = NaN"
| "fdiv PInf NInf = NaN"
| "fdiv NInf PInf = NaN"
| "fdiv NInf NInf = NaN"

fun fexp :: "fval \<Rightarrow> fval" where
  "fexp (Fin a) = fl (exp a)"
| "fexp PInf = PInf"
| "fexp NInf = Fin 0"
| "fexp NaN = NaN"


text \<open>\<^verbatim>\<open>Maximum\<close> and \<^verbatim>\<open>Minimum\<close> return NaN when an operand is NaN.\<close>

fun fmaximum :: "fval \<Rightarrow> fval \<Rightarrow> fval" where
  "fmaximum (Fin a) (Fin b) = Fin (max a b)"
| "fmaximum NaN y = NaN"
| "fmaximum x NaN = NaN"
| "fmaximum PInf y = PInf"
| "fmaximum x PInf = PInf"
| "fmaximum NInf y = y"
| "fmaximum x NInf = x"


text \<open>A sum and a maximum along an axis: \<open>fsum f n\<close> adds \<open>f 0\<close>, ..., \<open>f (n - 1)\<close> from
  left to right, \<open>fmaxr f n\<close> is the maximum of \<open>f 0\<close>, ..., \<open>f n\<close>.\<close>

primrec fsum :: "(nat \<Rightarrow> fval) \<Rightarrow> nat \<Rightarrow> fval" where
  "fsum f 0 = Fin 0"
| "fsum f (Suc n) = fadd (fsum f n) (f n)"

primrec fmaxr :: "(nat \<Rightarrow> fval) \<Rightarrow> nat \<Rightarrow> fval" where
  "fmaxr f 0 = f 0"
| "fmaxr f (Suc n) = fmaximum (fmaxr f n) (f (Suc n))"

text \<open>A float tensor with finite entries, and the reductions \<^verbatim>\<open>ReduceSum(keep_dims=True)\<close>
  and \<^verbatim>\<open>ArgMaxWithValue(axis=1, keep_dims=True)\<close> (its value output) along axis 1.\<close>

definition float32 :: "real tensor2 \<Rightarrow> fval tensor2" where
  "float32 x = map2d Fin x"

definition freduce_sum_keep :: "fval tensor2 \<Rightarrow> fval tensor2" where
  "freduce_sum_keep x = Tensor2 (nrows x) 1 (\<lambda>i j. fsum (\<lambda>l. at2 x i l) (ncols x))"

definition argmax_value :: "fval tensor2 \<Rightarrow> error + fval tensor2" where
  "argmax_value x =
     (if ncols x = 0 then Inl EmptyReduce
      else Inr (Tensor2 (nrows x) 1 (\<lambda>i j. fmaxr (\<lambda>l. at2 x i l) (ncols x - 1))))"

section \<open>CrossEntropyLoss\<close>

text \<open>\<^verbatim>\<open>nn.LogSoftmax(axis=1)\<close> and \<^verbatim>\<open>nn.OneHot(depth, axis=-1)\<close>. A label outside
  \<open>0..<depth\<close> gives a row of zeros.\<close>

definition logsoftmax :: "real tensor2 \<Rightarrow> real tensor2" where
  "logsoftmax x =
     Tensor2 (nrows x) (ncols x) (\<lambda>i k. at2 x i k - ln (\<Sum>j<ncols x. exp (at2 x i j)))"

definition onehot :: "nat \<Rightarrow> int tensor1 \<Rightarrow> real tensor2" where
  "onehot depth t = Tensor2 (len t) depth (\<lambda>i k. if at1 t i = int k then 1 else 0)"

record CrossEntropyLoss =
  num_classes :: int
  eps :: real

definition CrossEntropyLoss_init :: "int \<Rightarrow> real \<Rightarrow> bool \<Rightarrow> CrossEntropyLoss" where
  "CrossEntropyLoss_init n e label_smooth =
     \<lparr>num_classes = n, eps = (if label_smooth then e else 0)\<rparr>"

definition CrossEntropyLoss_construct ::
  "CrossEntropyLoss \<Rightarrow> real tensor2 \<Rightarrow> int tensor1 \<Rightarrow> error + real" where
  "CrossEntropyLoss_construct self inputs targets =
     (let log_probs = logsoftmax inputs;
          depth = ncols log_probs;
          targets1 = onehot depth targets
      in andThen (py_div (eps self) (num_classes self)) (\<lambda>u.
           let targets2 = sadd (smul (1 - eps self) targets1) u
           in andThen (ew2 (*) (neg targets2) log_probs) (\<lambda>prod.
                andThen (mean0 prod) (\<lambda>m. Inr (sum_all m)))))"

section \<open>MarginRankingLoss\<close>

text \<open>The inputs are rank-1 tensors, as in the call from \<open>OriTripletLoss\<close>. The result of
  \<^verbatim>\<open>ReduceMean(keep_dims=True)\<close> is a tensor with one element.\<close>

record MarginRankingLoss =
  margin :: real

definition MarginRankingLoss_init :: "real \<Rightarrow> MarginRankingLoss" where
  "MarginRankingLoss_init m = \<lparr>margin = m\<rparr>"

definition MarginRankingLoss_construct ::
  "MarginRankingLoss \<Rightarrow> real tensor1 \<Rightarrow> real tensor1 \<Rightarrow> real tensor1 \<Rightarrow> error + real tensor1" where
  "MarginRankingLoss_construct self input1 input2 y =
     andThen (ew1 (-) input1 input2) (\<lambda>d.
       let temp1 = map1d uminus d
       in andThen (ew1 (*) temp1 y) (\<lambda>temp2.
            let temp3 = map1d (\<lambda>v. v + margin self) temp2;
                temp3_mask = map1d (\<lambda>v. v \<ge> 0) temp3
            in andThen (ew1 (\<lambda>v b. v * (if b then 1 else 0)) temp3 temp3_mask) (\<lambda>p.
                 reduce_mean_keep p)))"

section \<open>OriTripletLoss\<close>

record OriTripletLoss =
  ori_margin :: real
  ranking_loss :: MarginRankingLoss
  expand :: "nat \<times> nat"

definition OriTripletLoss_init :: "real \<Rightarrow> nat \<Rightarrow> OriTripletLoss" where
  "OriTripletLoss_init m batch_size =
     \<lparr>ori_margin = m, ranking_loss = MarginRankingLoss_init m, expand = (batch_size, batch_size)\<rparr>"

text \<open>Lines 135 to 147 of \<open>construct\<close>: the pairwise distance matrix.\<close>

definition ori_dist :: "OriTripletLoss \<Rightarrow> real tensor2 \<Rightarrow> error + real tensor2" where
  "ori_dist self inputs =
     (let dist0 = pow_ms inputs 2;
          dist1 = reduce_sum_keep dist0
      in andThen (broadcast_to (expand self) dist1) (\<lambda>dist2.
         andThen (ew2 (+) dist2 (transpose_ms dist2)) (\<lambda>dist3.
         andThen (matmul inputs (transpose_ms inputs)) (\<lambda>temp0.
           let temp1 = smul (- 2) temp0
           in andThen (ew2 (+) dist3 temp1) (\<lambda>dist4.
                let dist5 = clip_by_value dist4 (1 / 10 ^ 12) 100000000
                in Inr (sqrt_ms dist5))))))"

text \<open>Lines 149 to 157: the label masks, the hardest positive \<open>dist_ap\<close> and the hardest
  negative \<open>dist_an\<close> of every anchor.\<close>

definition ori_mask_pos :: "OriTripletLoss \<Rightarrow> int tensor1 \<Rightarrow> error + int tensor2" where
  "ori_mask_pos self targets =
     andThen (broadcast_to1 (expand self) targets) (\<lambda>t.
     andThen (ew2 (=) t (transpose_ms t)) (\<lambda>e. Inr (cast_int8 e)))"

definition ori_mask_neg :: "OriTripletLoss \<Rightarrow> int tensor1 \<Rightarrow> error + int tensor2" where
  "ori_mask_neg self targets =
     andThen (broadcast_to1 (expand self) targets) (\<lambda>t.
     andThen (ew2 (\<noteq>) t (transpose_ms t)) (\<lambda>e. Inr (cast_int8 e)))"

definition ori_dist_ap :: "real tensor2 \<Rightarrow> int tensor2 \<Rightarrow> error + real tensor1" where
  "ori_dist_ap dmat mask_pos =
     andThen (mul_int8 dmat mask_pos) (\<lambda>p.
     andThen (reduce_max_keep p) (\<lambda>mx. Inr (squeeze mx)))"

definition ori_dist_an :: "real tensor2 \<Rightarrow> int tensor2 \<Rightarrow> int tensor2 \<Rightarrow> error + real tensor1" where
  "ori_dist_an dmat mask_pos mask_neg =
     andThen (mul_int8 dmat mask_neg) (\<lambda>p.
     andThen (reduce_max_keep p) (\<lambda>mx.
     andThen (mul_int8 mx mask_pos) (\<lambda>q.
     andThen (ew2 (+) q dmat) (\<lambda>s.
     andThen (reduce_min_keep s) (\<lambda>mn. Inr (squeeze mn))))))"

text \<open>The whole of \<open>construct\<close>. With a batch of one sample both \<^verbatim>\<open>squeeze()\<close> calls
  give tensors of rank 0, so does the ranking loss, and \<^verbatim>\<open>loss[0]\<close> fails.\<close>

definition OriTripletLoss_construct ::
  "OriTripletLoss \<Rightarrow> real tensor2 \<Rightarrow> int tensor1 \<Rightarrow> error + real" where
  "OriTripletLoss_construct self inputs targets =
     andThen (ori_dist self inputs) (\<lambda>dmat.
     andThen (ori_mask_pos self targets) (\<lambda>mask_pos.
     andThen (ori_mask_neg self targets) (\<lambda>mask_neg.
     andThen (ori_dist_ap dmat mask_pos) (\<lambda>dist_ap.
     andThen (ori_dist_an dmat mask_pos mask_neg) (\<lambda>dist_an.
       let y = map1d (\<lambda>v. 1) dist_an
       in andThen (MarginRankingLoss_construct (ranking_loss self) dist_an dist_ap y) (\<lambda>loss.
            if expand self = (1, 1) then Inl ZeroDimIndex else Inr (at1 loss 0)))))))"

section \<open>The helpers pdist_ms, addmm and softmax_weights\<close>

definition addmm ::
  "real tensor2 \<Rightarrow> real \<Rightarrow> real \<Rightarrow> real tensor2 \<Rightarrow> real tensor2 \<Rightarrow> error + real tensor2" where
  "addmm dmat a b m1 m2 =
     (let y1 = smul a dmat
      in andThen (matmul m1 m2) (\<lambda>y2.
           let y2' = smul b y2
           in ew2 (+) y1 y2'))"

definition pdist_ms :: "real tensor2 \<Rightarrow> real tensor2 \<Rightarrow> error + real tensor2" where
  "pdist_ms emb1 emb2 =
     (let m = nrows emb1; n = nrows emb2
      in andThen (broadcast_to (m, n) (reduce_sum_keep (pow_ms emb1 2))) (\<lambda>emb1_pow.
         andThen (broadcast_to (n, m) (reduce_sum_keep (pow_ms emb2 2))) (\<lambda>emb2_pow0.
           let emb2_pow = transpose_ms emb2_pow0
           in andThen (ew2 (+) emb1_pow emb2_pow) (\<lambda>dist_mtx0.
              andThen (addmm dist_mtx0 1 (- 2) emb1 (transpose_ms emb2)) (\<lambda>dist_mtx1.
                let dist_mtx2 = clip_by_value dist_mtx1 (1 / 10 ^ 12) (10 ^ 7)
                in Inr (sqrt_ms dist_mtx2))))))"





text \<open>\<open>softmax_weights\<close> over binary32 values (lines 233 to 246).\<close>

definition softmax_weights :: "fval tensor2 \<Rightarrow> fval tensor2 \<Rightarrow> error + fval tensor2" where
  "softmax_weights dmat msk =
     andThen (ew2 fmul dmat msk) (\<lambda>dm.
     andThen (argmax_value dm) (\<lambda>max_v.
     andThen (ew2 fsub dmat max_v) (\<lambda>diff.
     andThen (ew2 fmul (map2d fexp diff) msk) (\<lambda>em.
       let tmp_z0 = freduce_sum_keep em;
           tmp_z = map2d (\<lambda>v. fadd v (Fin (1 / 10 ^ 6))) tmp_z0
       in andThen (ew2 fmul (map2d fexp diff) msk) (\<lambda>em'.
            ew2 fdiv em' tmp_z)))))"

section \<open>Notions used to state the properties\<close>

text \<open>A 0/1 mask and the row maximum of \<open>dist * mask\<close> that \<open>softmax_weights\<close> computes for
  row \<open>i\<close>; finite tensors whose entries are within the binary32 range, and rows in which no
  exponential \<open>exp (dist[i][l] - max_v[i])\<close> exceeds the largest binary32 number.\<close>

definition is_mask :: "real tensor2 \<Rightarrow> bool" where
  "is_mask k = (\<forall>i<nrows k. \<forall>j<ncols k. at2 k i j = 0 \<or> at2 k i j = 1)"

definition row_max :: "real tensor2 \<Rightarrow> real tensor2 \<Rightarrow> nat \<Rightarrow> real" where
  "row_max d k i = Max ((\<lambda>l. at2 d i l * at2 k i l) ` {..<ncols d})"

definition representable :: "real tensor2 \<Rightarrow> bool" where
  "representable d = (\<forall>i<nrows d. \<forall>j<ncols d. \<bar>at2 d i j\<bar> \<le> float_max)"

definition exp_in_range :: "real tensor2 \<Rightarrow> real tensor2 \<Rightarrow> nat \<Rightarrow> bool" where
  "exp_in_range d k i = (\<forall>l<ncols d. exp (at2 d i l - row_max d k i) \<le> float_max)"

text \<open>Entry (i, j) of the result of \<open>softmax_weights\<close> as the code computes it, and its
  value for a 0/1 mask when no exponential of the row overflows: the exponential (0 when
  the difference underflows to minus infinity), the masked sum and the weight (0 when the
  denominator overflows).\<close>

definition sw_entry :: "real tensor2 \<Rightarrow> real tensor2 \<Rightarrow> nat \<Rightarrow> nat \<Rightarrow> fval" where
  "sw_entry d k i j =
     fdiv (fmul (fexp (fsub (Fin (at2 d i j))
                         (fmaxr (\<lambda>l. fl (at2 d i l * at2 k i l)) (ncols d - 1))))
                (Fin (at2 k i j)))
          (fadd (fsum (\<lambda>l. fmul (fexp (fsub (Fin (at2 d i l))
                         (fmaxr (\<lambda>l. fl (at2 d i l * at2 k i l)) (ncols d - 1))))
                      (Fin (at2 k i l))) (ncols d))
                (Fin (1 / 10 ^ 6)))"

definition sw_exp :: "real tensor2 \<Rightarrow> real tensor2 \<Rightarrow> nat \<Rightarrow> nat \<Rightarrow> real" where
  "sw_exp d k i l =
     (if at2 d i l - row_max d k i < - float_max then 0 else exp (at2 d i l - row_max d k i))"

definition sw_z :: "real tensor2 \<Rightarrow> real tensor2 \<Rightarrow> nat \<Rightarrow> real" where
  "sw_z d k i = (\<Sum>l<ncols d. sw_exp d k i l * at2 k i l)"

definition sw_weight :: "real tensor2 \<Rightarrow> real tensor2 \<Rightarrow> nat \<Rightarrow> nat \<Rightarrow> real" where
  "sw_weight d k i j =
     (if float_max < sw_z d k i + 1 / 10 ^ 6 then 0
      else sw_exp d k i j * at2 k i j / (sw_z d k i + 1 / 10 ^ 6))"

text \<open>The squared norm of row \<open>i\<close>, the inner product of row \<open>i\<close> of \<open>x\<close> and row \<open>j\<close> of
  \<open>y\<close>, and the clipped, square-rooted squared Euclidean distance with ceiling \<open>hi\<close>.\<close>

definition sqnorm :: "real tensor2 \<Rightarrow> nat \<Rightarrow> real" where
  "sqnorm x i = (\<Sum>l<ncols x. (at2 x i l)\<^sup>2)"

definition dotp :: "real tensor2 \<Rightarrow> real tensor2 \<Rightarrow> nat \<Rightarrow> nat \<Rightarrow> real" where
  "dotp x y i j = (\<Sum>l<ncols x. at2 x i l * at2 y j l)"

definition clipped_dist :: "real \<Rightarrow> real tensor2 \<Rightarrow> real tensor2 \<Rightarrow> nat \<Rightarrow> nat \<Rightarrow> real" where
  "clipped_dist hi x y i j =
     sqrt (max (min (sqnorm x i + sqnorm y j - 2 * dotp x y i j) hi) (1 / 10 ^ 12))"

text \<open>The smoothed target \<open>(1 - eps) * onehot + eps / K\<close> and the log-softmax of a logit
  matrix, entry by entry; the class a label names, labels that are class indices, and
  batches in which the true class of every example attains the largest log-probability.\<close>

definition smoothed :: "real \<Rightarrow> nat \<Rightarrow> int tensor1 \<Rightarrow> nat \<Rightarrow> nat \<Rightarrow> real" where
  "smoothed e K t i k = (1 - e) * (if at1 t i = int k then 1 else 0) + e / real K"

definition log_prob :: "real tensor2 \<Rightarrow> nat \<Rightarrow> nat \<Rightarrow> real" where
  "log_prob x i k = at2 x i k - ln (\<Sum>j<ncols x. exp (at2 x i j))"

definition true_class :: "int tensor1 \<Rightarrow> nat \<Rightarrow> nat" where
  "true_class t i = nat (at1 t i)"

definition labels_in_range :: "int tensor1 \<Rightarrow> nat \<Rightarrow> bool" where
  "labels_in_range t K = (\<forall>i<len t. 0 \<le> at1 t i \<and> at1 t i < int K)"

definition correctly_classified :: "real tensor2 \<Rightarrow> int tensor1 \<Rightarrow> bool" where
  "correctly_classified x t =
     (\<forall>i<nrows x. \<forall>k<ncols x. log_prob x i k \<le> log_prob x i (true_class t i))"

text \<open>Samples of the same label as anchor \<open>i\<close>, and the two masked reductions of
  \<open>OriTripletLoss.construct\<close> on a distance function \<open>d\<close> and a batch of \<open>n\<close> samples.\<close>

definition same_label :: "int tensor1 \<Rightarrow> nat \<Rightarrow> nat \<Rightarrow> bool" where
  "same_label t i j = (at1 t j = at1 t i)"

definition hardest_pos :: "(nat \<Rightarrow> nat \<Rightarrow> real) \<Rightarrow> int tensor1 \<Rightarrow> nat \<Rightarrow> nat \<Rightarrow> real" where
  "hardest_pos d t n i = Max ((\<lambda>l. d i l * (if same_label t i l then 1 else 0)) ` {..<n})"

definition hardest_neg :: "(nat \<Rightarrow> nat \<Rightarrow> real) \<Rightarrow> int tensor1 \<Rightarrow> nat \<Rightarrow> nat \<Rightarrow> real" where
  "hardest_neg d t n i =
     Min ((\<lambda>l. Max ((\<lambda>l'. d i l' * (if \<not> same_label t i l' then 1 else 0)) ` {..<n})
                  * (if same_label t i l then 1 else 0) + d i l) ` {..<n})"

text \<open>The rows of a matrix permuted by \<open>p\<close>, and the mean hinge of the hardest positive
  and negative distances, the value of \<open>OriTripletLoss.construct\<close> on a batch of \<open>n\<close>
  samples.\<close>

definition permute_rows :: "(nat \<Rightarrow> nat) \<Rightarrow> 'a tensor2 \<Rightarrow> 'a tensor2" where
  "permute_rows p x = Tensor2 (nrows x) (ncols x) (\<lambda>i j. at2 x (p i) j)"

definition hinge_mean :: "real \<Rightarrow> (nat \<Rightarrow> nat \<Rightarrow> real) \<Rightarrow> int tensor1 \<Rightarrow> nat \<Rightarrow> real" where
  "hinge_mean mg d t n =
     (\<Sum>i<n. max 0 (- (hardest_neg d t n i - hardest_pos d t n i) * 1 + mg)) / real n"





section \<open>Basic facts about the primitives\<close>

lemma andThen_Inr [simp]: "andThen (Inr v) f = f v"
  by (simp add: andThen_def)

lemma andThen_Inl [simp]: "andThen (Inl e) f = Inl e"
  by (simp add: andThen_def)

lemma bdim_same [simp]: "bdim a a = Some a"
  by (simp add: bdim_def)

lemma bdim_one_right [simp]: "bdim n (Suc 0) = Some n"
  by (simp add: bdim_def)

lemma bdim_one_left [simp]: "bdim (Suc 0) n = Some n"
  by (auto simp add: bdim_def)

lemma bidx_same [simp]: "bidx n n i = i"
  by (simp add: bidx_def)

lemma ew2_same_shape:
  "nrows x = nrows y \<Longrightarrow> ncols x = ncols y \<Longrightarrow>
   ew2 f x y = Inr (Tensor2 (nrows x) (ncols x) (\<lambda>i j. f (at2 x i j) (at2 y i j)))"
  by (simp add: ew2_def)

lemma ew1_same_shape:
  "len x = len y \<Longrightarrow> ew1 f x y = Inr (Tensor1 (len x) (\<lambda>i. f (at1 x i) (at1 y i)))"
  by (simp add: ew1_def)

section \<open>Properties of addmm\<close>

text \<open>
  Claim C3, as amended. For conforming operands (\<open>dmat\<close> of shape (m, n), \<open>m1\<close> of shape
  (m, k), \<open>m2\<close> of shape (k, n)), \<open>addmm dmat a b m1 m2\<close> returns \<open>a * dmat + b * (m1 @ m2)\<close>:
  the matrix product is taken against the last argument as it is passed, not against its
  transpose.
\<close>

theorem addmm_product:
  assumes "nrows dmat = nrows m1" "ncols dmat = ncols m2" "ncols m1 = nrows m2"
  shows "addmm dmat a b m1 m2 =
     Inr (Tensor2 (nrows m1) (ncols m2)
            (\<lambda>i j. a * at2 dmat i j + b * (\<Sum>l<ncols m1. at2 m1 i l * at2 m2 l j)))"
  using assms by (simp add: addmm_def matmul_def smul_def map2d_def ew2_same_shape)

theorem addmm_product_witness:
  "addmm (Tensor2 1 2 (\<lambda>i j. 0)) 1 1
         (Tensor2 1 2 (\<lambda>i j. if j = 0 then 1 else 0))
         (Tensor2 2 2 (\<lambda>i j. if i = 0 \<and> j = 1 then 1 else 0)) =
   Inr (Tensor2 1 2 (\<lambda>i j. \<Sum>l::nat<2. (if l = 0 then 1 else 0 :: real)
                                       * (if l = 0 \<and> j = (1::nat) then 1 else 0)))"
  using addmm_product [of "Tensor2 1 2 (\<lambda>i j. 0)"
      "Tensor2 1 2 (\<lambda>i j. if j = 0 then 1 else 0)"
      "Tensor2 2 2 (\<lambda>i j. if i = 0 \<and> j = 1 then 1 else 0)" 1 1]
  by simp

text \<open>
  The claim as stated (product against the transpose of the last argument) fails for
  \<open>m1 = [[1, 0]]\<close>, \<open>m2 = [[0, 1], [0, 0]]\<close>, \<open>dmat = [[0, 0]]\<close>, \<open>a = b = 1\<close>: entry (0, 1)
  of the result is 1, while \<open>a * dmat + b * (m1 @ m2\<^sup>T)\<close> has 0 there.
\<close>

theorem addmm_transpose_counterexample:
  "\<exists>R. addmm (Tensor2 1 2 (\<lambda>i j. 0)) 1 1
              (Tensor2 1 2 (\<lambda>i j. if j = 0 then 1 else 0))
              (Tensor2 2 2 (\<lambda>i j. if i = 0 \<and> j = 1 then 1 else 0)) = Inr R
     \<and> at2 R 0 1 = 1
     \<and> 1 * at2 (Tensor2 1 2 (\<lambda>i j. 0 :: real)) 0 1
        + 1 * (\<Sum>l<2. at2 (Tensor2 1 2 (\<lambda>i j. if j = 0 then 1 else 0 :: real)) 0 l
                     * at2 (Tensor2 2 2 (\<lambda>i j. if i = 0 \<and> j = 1 then 1 else 0 :: real)) 1 l)
        = (0 :: real)"
  by (simp add: addmm_def matmul_def smul_def map2d_def ew2_same_shape lessThan_Suc
      numeral_2_eq_2)

text \<open>In \<open>pdist_ms\<close> the caller passes the transpose of \<open>emb2\<close>, so that there the product is
  against \<open>emb2\<^sup>T\<close>.\<close>

lemma addmm_at_call_site:
  assumes "nrows dmat = nrows emb1" "ncols dmat = nrows emb2" "ncols emb1 = ncols emb2"
  shows "addmm dmat a b emb1 (transpose_ms emb2) =
     Inr (Tensor2 (nrows emb1) (nrows emb2)
            (\<lambda>i j. a * at2 dmat i j + b * (\<Sum>l<ncols emb1. at2 emb1 i l * at2 emb2 j l)))"
  using assms
  by (simp add: addmm_def matmul_def smul_def map2d_def ew2_same_shape transpose_ms_def)

section \<open>Properties of MarginRankingLoss\<close>

text \<open>
  Claim C5. For equal-shaped \<open>input1\<close>, \<open>input2\<close> and \<open>y\<close>, \<open>MarginRankingLoss.construct\<close>
  returns the mean over all elements of \<open>max 0 (- (input1 - input2) * y + margin)\<close>: the
  masked product \<open>temp3 * (temp3 \<ge> 0)\<close> is \<open>max 0 temp3\<close> elementwise. For a non-empty
  tensor the mean is the sum of the hinge terms divided by their number. (The property
  needs no assumption on the entries of \<open>y\<close>.)
\<close>

theorem MarginRankingLoss_hinge_mean:
  assumes "len input1 = len y" "len input2 = len y"
  shows "MarginRankingLoss_construct self input1 input2 y =
           reduce_mean_keep (Tensor1 (len y)
             (\<lambda>l. max 0 (- (at1 input1 l - at1 input2 l) * at1 y l + margin self)))
       \<and> (0 < len y \<longrightarrow>
           MarginRankingLoss_construct self input1 input2 y =
             Inr (Tensor1 1 (\<lambda>i.
               (\<Sum>l<len y. max 0 (- (at1 input1 l - at1 input2 l) * at1 y l + margin self))
                 / real (len y))))"
proof -
  have m: "\<And>t::real. t * (if 0 \<le> t then 1 else 0) = max 0 t"
    by (simp add: max_def)
  have "MarginRankingLoss_construct self input1 input2 y =
           reduce_mean_keep (Tensor1 (len y)
             (\<lambda>l. max 0 (- (at1 input1 l - at1 input2 l) * at1 y l + margin self)))"
    using assms
    by (simp add: MarginRankingLoss_construct_def ew1_same_shape map1d_def Let_def m)
  then show ?thesis
    by (simp add: reduce_mean_keep_def)
qed

theorem MarginRankingLoss_hinge_mean_witness:
  "MarginRankingLoss_construct \<lparr>margin = 3 / 10\<rparr>
      (Tensor1 2 (\<lambda>i. if i = 0 then 1 else 5)) (Tensor1 2 (\<lambda>i. 2)) (Tensor1 2 (\<lambda>i. 1)) =
   Inr (Tensor1 1 (\<lambda>i. 13 / 20))"
proof -
  have a: "MarginRankingLoss_construct \<lparr>margin = 3 / 10\<rparr>
      (Tensor1 2 (\<lambda>i. if i = 0 then 1 else 5)) (Tensor1 2 (\<lambda>i. 2)) (Tensor1 2 (\<lambda>i. 1)) =
    Inr (Tensor1 1 (\<lambda>i. (\<Sum>l::nat<2. max 0 (- ((if l = 0 then 1 else 5) - 2) * 1 + 3 / 10))
                            / real (2::nat)))"
    using MarginRankingLoss_hinge_mean [of "Tensor1 2 (\<lambda>i. if i = 0 then 1 else 5)"
        "Tensor1 2 (\<lambda>i. 1)" "Tensor1 2 (\<lambda>i. 2)" "\<lparr>margin = 3 / 10\<rparr>", THEN conjunct2]
    by simp
  have b: "(\<Sum>l::nat<2. max 0 (- ((if l = 0 then 1 else 5) - 2) * 1 + 3 / 10 :: real)) = 13 / 10"
    by (simp add: lessThan_Suc numeral_2_eq_2)
  show ?thesis
    unfolding a b by simp
qed

section \<open>Properties of softmax_weights\<close>

lemma float_max_ge_one: "1 \<le> float_max"
  by (simp add: float_max_def)

lemma float_max_pos: "0 < float_max"
  using float_max_ge_one by simp

lemma fl_in_range: "\<bar>r\<bar> \<le> float_max \<Longrightarrow> fl r = Fin r"
  by (auto simp: fl_def)

lemma fmaxr_finite:
  assumes "\<forall>l\<le>N. f l = Fin (g l)"
  shows "fmaxr f N = Fin (Max (g ` {..N}))"
  using assms
proof (induction N)
  case 0
  then show ?case by simp
next
  case (Suc N)
  then have "fmaxr f N = Fin (Max (g ` {..N}))"
    by simp
  moreover have "f (Suc N) = Fin (g (Suc N))"
    using Suc.prems by simp
  moreover have "Max (g ` {..Suc N}) = max (Max (g ` {..N})) (g (Suc N))"
    by (simp add: atMost_Suc max.commute)
  ultimately show ?case
    by simp
qed

lemma fsum_nonneg:
  assumes "\<forall>l<n. f l = Fin (g l) \<and> 0 \<le> g l"
  shows "fsum f n = fl (\<Sum>l<n. g l)"
  using assms
proof (induction n)
  case 0
  then show ?case by (simp add: fl_in_range float_max_pos less_imp_le)
next
  case (Suc n)
  have ih: "fsum f n = fl (\<Sum>l<n. g l)"
    using Suc by simp
  have fn: "f n = Fin (g n)" and gn: "0 \<le> g n"
    using Suc.prems by simp_all
  have s: "0 \<le> (\<Sum>l<n. g l)"
    using Suc.prems by (intro sum_nonneg) simp
  show ?case
    using s gn float_max_pos by (auto simp: ih fn fl_def)
qed

lemma softmax_weights_closed:
  assumes "nrows msk = nrows dmat" "ncols msk = ncols dmat" "0 < ncols dmat"
  shows "softmax_weights (float32 dmat) (float32 msk) =
     Inr (Tensor2 (nrows dmat) (ncols dmat) (sw_entry dmat msk))"
  using assms
  by (simp add: softmax_weights_def float32_def ew2_same_shape argmax_value_def
      freduce_sum_keep_def map2d_def ew2_def sw_entry_def [abs_def])

lemma row_max_fmaxr:
  assumes n: "0 < ncols d"
      and m: "\<forall>l<ncols d. at2 k i l = 0 \<or> at2 k i l = 1"
      and r: "\<forall>l<ncols d. \<bar>at2 d i l\<bar> \<le> float_max"
  shows "fmaxr (\<lambda>l. fl (at2 d i l * at2 k i l)) (ncols d - 1) = Fin (row_max d k i)"
proof -
  have "fl (at2 d i l * at2 k i l) = Fin (at2 d i l * at2 k i l)" if "l \<le> ncols d - 1" for l
  proof -
    have l: "l < ncols d" using that n by simp
    then have "at2 k i l = 0 \<or> at2 k i l = 1" using m by simp
    then have "\<bar>at2 d i l * at2 k i l\<bar> \<le> float_max"
      using r l float_max_pos by auto
    then show ?thesis by (rule fl_in_range)
  qed
  then have "fmaxr (\<lambda>l. fl (at2 d i l * at2 k i l)) (ncols d - 1) =
             Fin (Max ((\<lambda>l. at2 d i l * at2 k i l) ` {..ncols d - 1}))"
    by (intro fmaxr_finite) simp
  moreover have "{..ncols d - 1} = {..<ncols d}"
    using n by (cases "ncols d") (simp_all add: lessThan_Suc_atMost)
  ultimately show ?thesis
    by (simp add: row_max_def)
qed

lemma sw_exp_bounds:
  assumes "exp (at2 d i l - row_max d k i) \<le> float_max"
  shows "0 \<le> sw_exp d k i l" "sw_exp d k i l \<le> float_max"
  using assms float_max_pos by (simp_all add: sw_exp_def)

lemma fexp_diff:
  assumes "exp (at2 d i l - row_max d k i) \<le> float_max"
  shows "fexp (fsub (Fin (at2 d i l)) (Fin (row_max d k i))) = Fin (sw_exp d k i l)"
proof -
  let ?x = "at2 d i l - row_max d k i"
  have "1 + ?x \<le> exp ?x"
    by (rule exp_ge_add_one_self)
  then have up: "?x \<le> float_max"
    using assms by linarith
  show ?thesis
  proof (cases "?x < - float_max")
    case True
    then show ?thesis
      using up by (simp add: fsub_def fl_def sw_exp_def)
  next
    case False
    then have "fl ?x = Fin ?x"
      using up by (simp add: fl_def)
    moreover have "fl (exp ?x) = Fin (exp ?x)"
      using assms float_max_pos exp_gt_zero [of ?x] by (intro fl_in_range) simp
    ultimately show ?thesis
      using False by (simp add: fsub_def sw_exp_def)
  qed
qed

lemma masked_exp:
  assumes e: "exp (at2 d i l - row_max d k i) \<le> float_max"
      and m: "at2 k i l = 0 \<or> at2 k i l = 1"
  shows "fmul (Fin (sw_exp d k i l)) (Fin (at2 k i l)) = Fin (sw_exp d k i l * at2 k i l)"
    and "0 \<le> sw_exp d k i l * at2 k i l"
    and "sw_exp d k i l * at2 k i l \<le> sw_exp d k i l"
proof -
  have b: "0 \<le> sw_exp d k i l" "sw_exp d k i l \<le> float_max"
    using e by (rule sw_exp_bounds)+
  show "0 \<le> sw_exp d k i l * at2 k i l" "sw_exp d k i l * at2 k i l \<le> sw_exp d k i l"
    using b m by auto
  then have "\<bar>sw_exp d k i l * at2 k i l\<bar> \<le> float_max"
    using b by simp
  then show "fmul (Fin (sw_exp d k i l)) (Fin (at2 k i l)) = Fin (sw_exp d k i l * at2 k i l)"
    by (simp add: fl_in_range)
qed

lemma sw_z_nonneg:
  assumes "exp_in_range d k i" "\<forall>l<ncols d. at2 k i l = 0 \<or> at2 k i l = 1"
  shows "0 \<le> sw_z d k i"
  unfolding sw_z_def using assms
  by (intro sum_nonneg masked_exp(2)) (simp_all add: exp_in_range_def)

lemma sw_term_le_z:
  assumes e: "exp_in_range d k i" and m: "\<forall>l<ncols d. at2 k i l = 0 \<or> at2 k i l = 1"
      and j: "j < ncols d"
  shows "sw_exp d k i j * at2 k i j \<le> sw_z d k i"
  unfolding sw_z_def
proof (rule member_le_sum)
  show "j \<in> {..<ncols d}" using j by simp
  show "0 \<le> sw_exp d k i l * at2 k i l" if "l \<in> {..<ncols d} - {j}" for l
    using e m that by (intro masked_exp(2)) (simp_all add: exp_in_range_def)
qed simp

lemma softmax_weights_entry:
  assumes n: "0 < ncols d"
      and m: "\<forall>l<ncols d. at2 k i l = 0 \<or> at2 k i l = 1"
      and r: "\<forall>l<ncols d. \<bar>at2 d i l\<bar> \<le> float_max"
      and e: "exp_in_range d k i"
      and j: "j < ncols d"
  shows "sw_entry d k i j = Fin (sw_weight d k i j)"
proof -
  have el: "exp (at2 d i l - row_max d k i) \<le> float_max" if "l < ncols d" for l
    using e that by (simp add: exp_in_range_def)
  have tm: "fmul (fexp (fsub (Fin (at2 d i l)) (Fin (row_max d k i)))) (Fin (at2 k i l)) =
              Fin (sw_exp d k i l * at2 k i l)" if "l < ncols d" for l
  proof -
    have mk: "at2 k i l = 0 \<or> at2 k i l = 1"
      using m that by simp
    show ?thesis
      unfolding fexp_diff [OF el [OF that]] by (rule masked_exp(1) [OF el [OF that] mk])
  qed
  have z: "0 \<le> sw_z d k i"
    using e m by (rule sw_z_nonneg)
  have "fsum (\<lambda>l. fmul (fexp (fsub (Fin (at2 d i l)) (Fin (row_max d k i)))) (Fin (at2 k i l)))
          (ncols d) = fl (\<Sum>l<ncols d. sw_exp d k i l * at2 k i l)"
  proof (rule fsum_nonneg, intro allI impI conjI)
    fix l assume l: "l < ncols d"
    show "fmul (fexp (fsub (Fin (at2 d i l)) (Fin (row_max d k i)))) (Fin (at2 k i l)) =
          Fin (sw_exp d k i l * at2 k i l)"
      using l by (rule tm)
    show "0 \<le> sw_exp d k i l * at2 k i l"
      using el [OF l] m l by (intro masked_exp(2)) simp_all
  qed
  then have zsum: "fsum (\<lambda>l. fmul (fexp (fsub (Fin (at2 d i l)) (Fin (row_max d k i))))
          (Fin (at2 k i l))) (ncols d) = fl (sw_z d k i)"
    by (simp add: sw_z_def)
  have tmp: "fadd (fl (sw_z d k i)) (Fin (1 / 10 ^ 6)) =
      (if float_max < sw_z d k i + 1 / 10 ^ 6 then PInf else Fin (sw_z d k i + 1 / 10 ^ 6))"
    using z float_max_pos by (auto simp: fl_def)
  have q: "fdiv (Fin (sw_exp d k i j * at2 k i j))
        (if float_max < sw_z d k i + 1 / 10 ^ 6 then PInf else Fin (sw_z d k i + 1 / 10 ^ 6)) =
      Fin (sw_weight d k i j)"
  proof (cases "float_max < sw_z d k i + 1 / 10 ^ 6")
    case True
    then show ?thesis by (simp add: sw_weight_def)
  next
    case False
    have num: "0 \<le> sw_exp d k i j * at2 k i j"
      using el [OF j] m j by (intro masked_exp(2)) simp_all
    have le: "sw_exp d k i j * at2 k i j \<le> sw_z d k i"
      using e m j by (rule sw_term_le_z)
    have den: "0 < sw_z d k i + 1 / 10 ^ 6"
      using z by simp
    have q1: "sw_exp d k i j * at2 k i j / (sw_z d k i + 1 / 10 ^ 6) \<le> 1"
      using le den by (simp add: divide_le_eq)
    have q0: "0 \<le> sw_exp d k i j * at2 k i j / (sw_z d k i + 1 / 10 ^ 6)"
      using num den by simp
    have "\<bar>sw_exp d k i j * at2 k i j / (sw_z d k i + 1 / 10 ^ 6)\<bar> \<le> float_max"
      unfolding abs_of_nonneg [OF q0] using q1 float_max_ge_one by linarith
    then have "fl (sw_exp d k i j * at2 k i j / (sw_z d k i + 1 / 10 ^ 6)) =
          Fin (sw_exp d k i j * at2 k i j / (sw_z d k i + 1 / 10 ^ 6))"
      by (rule fl_in_range)
    then show ?thesis
      using False den by (simp add: sw_weight_def)
  qed
  show ?thesis
    unfolding sw_entry_def row_max_fmaxr [OF n m r] zsum tmp tm [OF j] by (rule q)
qed


lemma sw_exp_mono:
  assumes "at2 d i k' \<le> at2 d i j"
  shows "sw_exp d k i k' \<le> sw_exp d k i j"
  using assms by (auto simp: sw_exp_def)

lemma sw_weight_bounds:
  assumes e: "exp_in_range d k i" and m: "\<forall>l<ncols d. at2 k i l = 0 \<or> at2 k i l = 1"
      and j: "j < ncols d"
  shows "0 \<le> sw_weight d k i j" "sw_weight d k i j \<le> 1"
proof -
  have z: "0 \<le> sw_z d k i"
    using e m by (rule sw_z_nonneg)
  have num: "0 \<le> sw_exp d k i j * at2 k i j"
    using e m j by (intro masked_exp(2)) (simp_all add: exp_in_range_def)
  have le: "sw_exp d k i j * at2 k i j \<le> sw_z d k i"
    using e m j by (rule sw_term_le_z)
  show "0 \<le> sw_weight d k i j"
    using z num by (simp add: sw_weight_def)
  show "sw_weight d k i j \<le> 1"
    using z le by (simp add: sw_weight_def divide_le_eq)
qed

lemma is_mask_row:
  assumes "is_mask msk" "ncols msk = ncols dmat" "nrows msk = nrows dmat" "i < nrows dmat"
  shows "\<forall>l<ncols dmat. at2 msk i l = 0 \<or> at2 msk i l = 1"
  using assms by (simp add: is_mask_def)

lemma representable_row:
  assumes "representable dmat" "i < nrows dmat"
  shows "\<forall>l<ncols dmat. \<bar>at2 dmat i l\<bar> \<le> float_max"
  using assms by (simp add: representable_def)

text \<open>
  Claim C9, as amended. For a finite distance matrix with entries in the binary32 range, a
  0/1 mask of its shape, and a row \<open>i\<close> in which no exponential
  \<open>exp (dist[i][l] - max_v[i])\<close> overflows: for two columns \<open>j\<close>, \<open>k\<close> with
  \<open>mask[i][j] = mask[i][k] = 1\<close> and \<open>dist[i][j] \<ge> dist[i][k]\<close>, both weights are finite and
  the weight of (i, j) is at least the weight of (i, k).
\<close>

theorem softmax_weights_monotone:
  assumes shape: "nrows msk = nrows dmat" "ncols msk = ncols dmat"
      and m: "is_mask msk"
      and r: "representable dmat"
      and idx: "i < nrows dmat" "j < ncols dmat" "k < ncols dmat"
      and e: "exp_in_range dmat msk i"
      and on: "at2 msk i j = 1" "at2 msk i k = 1"
      and le: "at2 dmat i k \<le> at2 dmat i j"
  shows "\<exists>w a b. softmax_weights (float32 dmat) (float32 msk) = Inr w
           \<and> at2 w i j = Fin a \<and> at2 w i k = Fin b \<and> b \<le> a"
proof -
  have pos: "0 < ncols dmat" using idx by simp
  have mr: "\<forall>l<ncols dmat. at2 msk i l = 0 \<or> at2 msk i l = 1"
    using m shape(2) shape(1) idx(1) by (rule is_mask_row)
  have rr: "\<forall>l<ncols dmat. \<bar>at2 dmat i l\<bar> \<le> float_max"
    using r idx(1) by (rule representable_row)
  have z: "0 \<le> sw_z dmat msk i"
    using e mr by (rule sw_z_nonneg)
  have "sw_exp dmat msk i k \<le> sw_exp dmat msk i j"
    using le by (rule sw_exp_mono)
  then have "sw_weight dmat msk i k \<le> sw_weight dmat msk i j"
    using z on by (simp add: sw_weight_def divide_right_mono)
  then show ?thesis
    using idx
    by (simp add: softmax_weights_closed [OF shape pos]
        softmax_weights_entry [OF pos mr rr e])
qed

text \<open>
  Claim C10, as amended. For a finite distance matrix with entries in the binary32 range and
  a 0/1 mask of its shape (with at least one column), if in no row an exponential
  \<open>exp (dist[i][l] - max_v[i])\<close> overflows, then the matrix returned by \<open>softmax_weights\<close>
  is zero wherever the mask is 0, and every entry is a finite number between 0 and 1.
  Nothing is stated about the row sums being below 1.
\<close>

theorem softmax_weights_rows:
  assumes shape: "nrows msk = nrows dmat" "ncols msk = ncols dmat"
      and m: "is_mask msk"
      and r: "representable dmat"
      and pos: "0 < ncols dmat"
      and e: "\<forall>i<nrows dmat. exp_in_range dmat msk i"
  shows "\<exists>w. softmax_weights (float32 dmat) (float32 msk) = Inr w
           \<and> nrows w = nrows dmat \<and> ncols w = ncols dmat
           \<and> (\<forall>i<nrows dmat. \<forall>j<ncols dmat.
                 (at2 msk i j = 0 \<longrightarrow> at2 w i j = Fin 0)
               \<and> (\<exists>a. at2 w i j = Fin a \<and> 0 \<le> a \<and> a \<le> 1))"
proof -
  have row: "(at2 msk i j = 0 \<longrightarrow> Fin (sw_weight dmat msk i j) = Fin 0)
           \<and> (\<exists>a. Fin (sw_weight dmat msk i j) = Fin a \<and> 0 \<le> a \<and> a \<le> 1)"
    if i: "i < nrows dmat" and j: "j < ncols dmat" for i j
  proof -
    have mr: "\<forall>l<ncols dmat. at2 msk i l = 0 \<or> at2 msk i l = 1"
      using m shape(2) shape(1) i by (rule is_mask_row)
    have ei: "exp_in_range dmat msk i"
      using e i by simp
    have "0 \<le> sw_weight dmat msk i j" "sw_weight dmat msk i j \<le> 1"
      using ei mr j by (rule sw_weight_bounds)+
    moreover have "at2 msk i j = 0 \<longrightarrow> sw_weight dmat msk i j = 0"
      by (simp add: sw_weight_def)
    ultimately show ?thesis
      by simp
  qed
  have entry: "sw_entry dmat msk i j = Fin (sw_weight dmat msk i j)"
    if i: "i < nrows dmat" and j: "j < ncols dmat" for i j
  proof (rule softmax_weights_entry [OF pos _ _ _ j])
    show "\<forall>l<ncols dmat. at2 msk i l = 0 \<or> at2 msk i l = 1"
      using m shape(2) shape(1) i by (rule is_mask_row)
    show "\<forall>l<ncols dmat. \<bar>at2 dmat i l\<bar> \<le> float_max"
      using r i by (rule representable_row)
    show "exp_in_range dmat msk i"
      using e i by simp
  qed
  show ?thesis
    unfolding softmax_weights_closed [OF shape pos]
    using row entry by simp
qed


text \<open>No exponential overflows when the masked-out entries of the distance matrix are 0
  (both calls in \<open>TripletLoss_WRT.construct\<close> pass \<open>dist * mask\<close>), or when no entry exceeds
  the row maximum by more than 80.\<close>

lemma exp_in_range_premasked:
  assumes n: "0 < ncols d"
      and m: "\<forall>l<ncols d. at2 k i l = 0 \<or> at2 k i l = 1"
      and z: "\<forall>l<ncols d. at2 k i l = 0 \<longrightarrow> at2 d i l = 0"
  shows "exp_in_range d k i"
  unfolding exp_in_range_def
proof (intro allI impI)
  fix l assume l: "l < ncols d"
  have "at2 d i l = at2 d i l * at2 k i l"
    using m z l by auto
  also have "\<dots> \<le> row_max d k i"
    unfolding row_max_def using l by (intro Max_ge) auto
  finally have "exp (at2 d i l - row_max d k i) \<le> 1"
    by simp
  then show "exp (at2 d i l - row_max d k i) \<le> float_max"
    using float_max_ge_one by linarith
qed

lemma exp_80: "exp (80::real) \<le> float_max"
proof -
  have "exp (80::real) = exp 1 ^ 80"
    using exp_of_nat_mult [of 80 "1::real"] by simp
  also have "\<dots> \<le> 3 ^ 80"
    by (intro power_mono exp_le) simp
  also have "\<dots> \<le> float_max"
    by (simp add: float_max_def)
  finally show ?thesis .
qed

lemma exp_in_range_80:
  assumes "\<forall>l<ncols d. at2 d i l - row_max d k i \<le> 80"
  shows "exp_in_range d k i"
  unfolding exp_in_range_def
proof (intro allI impI)
  fix l assume "l < ncols d"
  then have "exp (at2 d i l - row_max d k i) \<le> exp 80"
    using assms by simp
  then show "exp (at2 d i l - row_max d k i) \<le> float_max"
    using exp_80 by linarith
qed

text \<open>
  The claims as stated (for every distance matrix and 0/1 mask) fail for
  \<open>dist = [[1000, 1, 2]]\<close>, \<open>mask = [[0, 1, 1]]\<close>: the row maximum of \<open>dist * mask\<close> is 2,
  \<open>exp 998\<close> overflows to infinity, its product with the mask entry 0 is NaN, and so are the
  sum, the denominator and every weight of the row.
\<close>

lemma exp_998: "fl (exp 998) = PInf"
proof -
  have "exp (998::real) = exp 1 ^ 998"
    using exp_of_nat_mult [of 998 "1::real"] by simp
  moreover have "(2::real) ^ 998 \<le> exp 1 ^ 998"
    using exp_ge_add_one_self [of "1::real"] by (intro power_mono) simp_all
  moreover have "(2::real) ^ 128 \<le> 2 ^ 998"
    by (rule power_increasing) simp_all
  moreover have "float_max < 2 ^ 128"
    by (simp add: float_max_def)
  ultimately have "float_max < exp 998"
    by linarith
  then show ?thesis
    by (simp add: fl_def)
qed

lemma fdiv_NaN_right [simp]: "fdiv x NaN = NaN"
  by (cases x) simp_all

lemma sw_entry_overflow:
  "sw_entry (Tensor2 1 3 (\<lambda>i j. if j = 0 then 1000 else if j = 1 then 1 else 2))
            (Tensor2 1 3 (\<lambda>i j. if j = 0 then 0 else 1)) 0 j = NaN"
proof -
  have f: "fl 0 = Fin 0" "fl 1 = Fin 1" "fl 2 = Fin 2" "fl 998 = Fin 998"
    by (simp_all add: fl_def float_max_def)
  show ?thesis
    by (simp add: sw_entry_def eval_nat_numeral f fsub_def exp_998)
qed


theorem softmax_weights_monotone_counterexample:
  "is_mask (Tensor2 1 3 (\<lambda>i j. if j = 0 then 0 else 1))
   \<and> representable (Tensor2 1 3 (\<lambda>i j. if j = 0 then 1000 else if j = 1 then 1 else 2))
   \<and> at2 (Tensor2 1 3 (\<lambda>i j. if j = 0 then 0 else 1 :: real)) 0 1 = 1
   \<and> at2 (Tensor2 1 3 (\<lambda>i j. if j = 0 then 0 else 1 :: real)) 0 2 = 1
   \<and> at2 (Tensor2 1 3 (\<lambda>i j. if j = 0 then 1000 else if j = 1 then 1 else 2 :: real)) 0 1
       \<le> at2 (Tensor2 1 3 (\<lambda>i j. if j = 0 then 1000 else if j = 1 then 1 else 2 :: real)) 0 2
   \<and> (\<exists>w. softmax_weights
             (float32 (Tensor2 1 3 (\<lambda>i j. if j = 0 then 1000 else if j = 1 then 1 else 2)))
             (float32 (Tensor2 1 3 (\<lambda>i j. if j = 0 then 0 else 1))) = Inr w
          \<and> at2 w 0 1 = NaN \<and> at2 w 0 2 = NaN)"
  using sw_entry_overflow [of 1] sw_entry_overflow [of 2]
  by (simp add: softmax_weights_closed is_mask_def representable_def float_max_def)

theorem softmax_weights_rows_counterexample:
  "is_mask (Tensor2 1 3 (\<lambda>i j. if j = 0 then 0 else 1))
   \<and> representable (Tensor2 1 3 (\<lambda>i j. if j = 0 then 1000 else if j = 1 then 1 else 2))
   \<and> at2 (Tensor2 1 3 (\<lambda>i j. if j = 0 then 0 else 1 :: real)) 0 0 = 0
   \<and> (\<exists>w. softmax_weights
             (float32 (Tensor2 1 3 (\<lambda>i j. if j = 0 then 1000 else if j = 1 then 1 else 2)))
             (float32 (Tensor2 1 3 (\<lambda>i j. if j = 0 then 0 else 1))) = Inr w
          \<and> at2 w 0 0 = NaN \<and> at2 w 0 0 \<noteq> Fin 0)"
  using sw_entry_overflow [of 0]
  by (simp add: softmax_weights_closed is_mask_def representable_def float_max_def)

theorem softmax_weights_monotone_witness:
  "\<exists>w a b. softmax_weights (float32 (Tensor2 1 3 (\<lambda>i j. if j = 0 then 0 else real j)))
                             (float32 (Tensor2 1 3 (\<lambda>i j. if j = 0 then 0 else 1))) = Inr w
       \<and> at2 w 0 2 = Fin a \<and> at2 w 0 1 = Fin b \<and> b \<le> a"
proof -
  let ?D = "Tensor2 1 3 (\<lambda>i j. if j = 0 then 0 else real j)"
  let ?M = "Tensor2 1 3 (\<lambda>i j. if j = 0 then 0 else 1 :: real)"
  have m: "is_mask ?M"
    by (simp add: is_mask_def)
  have r: "representable ?D"
    by (auto simp add: representable_def float_max_def)
  have e: "exp_in_range ?D ?M 0"
    by (rule exp_in_range_premasked) (auto split: if_splits)
  show ?thesis
    using softmax_weights_monotone [of ?M ?D 0 2 1, OF _ _ m r _ _ _ e] by simp
qed

theorem softmax_weights_rows_witness:
  "\<exists>w. softmax_weights (float32 (Tensor2 1 3 (\<lambda>i j. if j = 0 then 0 else real j)))
                         (float32 (Tensor2 1 3 (\<lambda>i j. if j = 0 then 0 else 1))) = Inr w
       \<and> at2 w 0 0 = Fin 0 \<and> (\<exists>a. at2 w 0 1 = Fin a \<and> 0 \<le> a \<and> a \<le> 1)"
proof -
  let ?D = "Tensor2 1 3 (\<lambda>i j. if j = 0 then 0 else real j)"
  let ?M = "Tensor2 1 3 (\<lambda>i j. if j = 0 then 0 else 1 :: real)"
  have m: "is_mask ?M"
    by (simp add: is_mask_def)
  have r: "representable ?D"
    by (auto simp add: representable_def float_max_def)
  have e: "\<forall>i<nrows ?D. exp_in_range ?D ?M i"
    by (intro allI impI exp_in_range_premasked) (auto split: if_splits)
  from softmax_weights_rows [of ?M ?D, OF _ _ m r _ e]
  obtain w where a: "softmax_weights (float32 ?D) (float32 ?M) = Inr w"
    and b: "\<forall>i<nrows ?D. \<forall>j<ncols ?D.
                 (at2 ?M i j = 0 \<longrightarrow> at2 w i j = Fin 0)
               \<and> (\<exists>a. at2 w i j = Fin a \<and> 0 \<le> a \<and> a \<le> 1)"
    by auto
  from b have "at2 w 0 0 = Fin 0" "\<exists>a. at2 w 0 1 = Fin a \<and> 0 \<le> a \<and> a \<le> 1"
    by simp_all
  with a show ?thesis
    by blast
qed

section \<open>Pairwise distances\<close>

lemma pdist_ms_closed:
  assumes "ncols emb1 = ncols emb2"
  shows "pdist_ms emb1 emb2 =
     Inr (Tensor2 (nrows emb1) (nrows emb2) (\<lambda>i j. clipped_dist (10 ^ 7) emb1 emb2 i j))"
  using assms
  by (simp add: pdist_ms_def broadcast_to_def reduce_sum_keep_def pow_ms_def map2d_def
      transpose_ms_def ew2_same_shape addmm_def matmul_def smul_def clip_by_value_def
      sqrt_ms_def clipped_dist_def sqnorm_def dotp_def Let_def)

lemma ori_dist_closed:
  assumes "nrows inputs = bs"
  shows "ori_dist (OriTripletLoss_init m bs) inputs =
     Inr (Tensor2 bs bs (\<lambda>i j. clipped_dist 100000000 inputs inputs i j))"
  using assms
  by (simp add: ori_dist_def OriTripletLoss_init_def broadcast_to_def reduce_sum_keep_def
      pow_ms_def map2d_def
      transpose_ms_def ew2_same_shape addmm_def matmul_def smul_def clip_by_value_def
      sqrt_ms_def clipped_dist_def sqnorm_def dotp_def Let_def)


lemma clip_cap:
  "sqrt (max (min t 10000000) (1 / 1000000000000)) =
   min (sqrt (max (min t 100000000) (1 / 1000000000000))) (sqrt (10000000 :: real))"
proof -
  have "max (min t 10000000) (1 / 1000000000000) =
        min (max (min t 100000000) (1 / 1000000000000)) (10000000 :: real)"
    by (simp add: min_def max_def)
  then show ?thesis
    by (simp add: min_of_mono [of sqrt, symmetric] mono_def)
qed

text \<open>
  Claim C4, as amended. For a feature matrix with \<open>batch_size\<close> rows, the inline distance
  matrix of \<open>OriTripletLoss.construct\<close> and \<open>pdist_ms inputs inputs\<close> have the same shape,
  and every entry of the latter is the corresponding inline entry capped at \<open>sqrt 1e7\<close>:
  the inline code clips the squared distance to \<open>[1e-12, 1e8]\<close>, the helper to
  \<open>[1e-12, 1e7]\<close>. The two agree at every entry whose inline value is at most \<open>sqrt 1e7\<close>.
\<close>

theorem ori_dist_pdist_ms_capped:
  assumes "nrows inputs = bs"
  shows "\<exists>A B. ori_dist (OriTripletLoss_init m bs) inputs = Inr A \<and> pdist_ms inputs inputs = Inr B
     \<and> nrows A = bs \<and> ncols A = bs \<and> nrows B = bs \<and> ncols B = bs
     \<and> (\<forall>i<bs. \<forall>j<bs. at2 B i j = min (at2 A i j) (sqrt (10 ^ 7))
                     \<and> (at2 A i j \<le> sqrt (10 ^ 7) \<longrightarrow> at2 B i j = at2 A i j))"
  using assms
  by (simp add: pdist_ms_closed ori_dist_closed clipped_dist_def clip_cap)

theorem ori_dist_pdist_ms_capped_witness:
  "\<exists>A B. ori_dist (OriTripletLoss_init (3 / 10) 2) (Tensor2 2 1 (\<lambda>i j. if i = 0 then 0 else 4000)) = Inr A
       \<and> pdist_ms (Tensor2 2 1 (\<lambda>i j. if i = 0 then 0 else 4000))
                  (Tensor2 2 1 (\<lambda>i j. if i = 0 then 0 else 4000)) = Inr B
       \<and> at2 B 0 1 = min (at2 A 0 1) (sqrt (10 ^ 7))"
proof -
  let ?x = "Tensor2 2 1 (\<lambda>i j. if i = 0 then 0 else 4000 :: real)"
  have "nrows ?x = 2"
    by simp
  from ori_dist_pdist_ms_capped [OF this, of "3 / 10"]
  obtain A B where a: "ori_dist (OriTripletLoss_init (3 / 10) 2) ?x = Inr A"
    and b: "pdist_ms ?x ?x = Inr B"
    and c: "\<forall>i<2. \<forall>j<2. at2 B i j = min (at2 A i j) (sqrt (10 ^ 7))
                     \<and> (at2 A i j \<le> sqrt (10 ^ 7) \<longrightarrow> at2 B i j = at2 A i j)"
    by blast
  from c have "at2 B 0 1 = min (at2 A 0 1) (sqrt (10 ^ 7))"
    by simp
  with a b show ?thesis
    by blast
qed

text \<open>
  The claim as stated (the two matrices are equal) fails for \<open>inputs = [[0], [4000]]\<close>: the
  squared distance of the two rows is \<open>1.6e7\<close>, the inline entry is 4000 and the entry of
  \<open>pdist_ms\<close> is \<open>sqrt 1e7\<close>.
\<close>

theorem ori_dist_pdist_ms_counterexample:
  "\<exists>A B. ori_dist (OriTripletLoss_init (3 / 10) 2) (Tensor2 2 1 (\<lambda>i j. if i = 0 then 0 else 4000)) = Inr A
       \<and> pdist_ms (Tensor2 2 1 (\<lambda>i j. if i = 0 then 0 else 4000))
                  (Tensor2 2 1 (\<lambda>i j. if i = 0 then 0 else 4000)) = Inr B
       \<and> at2 A 0 1 = 4000 \<and> at2 B 0 1 = sqrt (10 ^ 7) \<and> at2 A 0 1 \<noteq> at2 B 0 1"
proof -
  have s: "sqrt 16000000 = 4000"
    by (rule real_sqrt_unique) simp_all
  have n: "sqrt (10 ^ 7) \<noteq> (4000::real)"
  proof
    assume "sqrt (10 ^ 7) = (4000::real)"
    then have "(sqrt (10 ^ 7))\<^sup>2 = (4000::real)\<^sup>2" by simp
    then show False by simp
  qed
  show ?thesis
    using n by (simp add: pdist_ms_closed ori_dist_closed clipped_dist_def sqnorm_def dotp_def s)
qed

section \<open>Properties of CrossEntropyLoss\<close>

lemma ce_closed:
  assumes "len targets = nrows inputs" "num_classes self = int (ncols inputs)"
      and "0 < ncols inputs" "0 < nrows inputs"
  shows "CrossEntropyLoss_construct self inputs targets =
     Inr (\<Sum>k<ncols inputs. (\<Sum>i<nrows inputs.
            - smoothed (eps self) (ncols inputs) targets i k * log_prob inputs i k) / real (nrows inputs))"
  using assms
  by (simp add: CrossEntropyLoss_construct_def logsoftmax_def onehot_def py_div_def sadd_def
      smul_def neg_def map2d_def ew2_same_shape mean0_def sum_all_def Let_def smoothed_def
      log_prob_def)

lemma ce_mean_form:
  assumes "len targets = nrows inputs" "num_classes self = int (ncols inputs)"
      and "0 < ncols inputs" "0 < nrows inputs"
  shows "CrossEntropyLoss_construct self inputs targets =
     Inr (- ((\<Sum>i<nrows inputs. \<Sum>k<ncols inputs.
               smoothed (eps self) (ncols inputs) targets i k * log_prob inputs i k)
             / real (nrows inputs)))"
proof -
  let ?f = "\<lambda>i k. smoothed (eps self) (ncols inputs) targets i k * log_prob inputs i k"
  have "(\<Sum>k<ncols inputs. (\<Sum>i<nrows inputs. - ?f i k) / real (nrows inputs)) =
        (\<Sum>k<ncols inputs. \<Sum>i<nrows inputs. - ?f i k) / real (nrows inputs)"
    by (simp add: sum_divide_distrib)
  also have "(\<Sum>k<ncols inputs. \<Sum>i<nrows inputs. - ?f i k) =
             (\<Sum>i<nrows inputs. \<Sum>k<ncols inputs. - ?f i k)"
    by (rule sum.swap)
  also have "\<dots> = - (\<Sum>i<nrows inputs. \<Sum>k<ncols inputs. ?f i k)"
    by (simp add: sum_negf)
  finally show ?thesis
    using assms by (simp add: ce_closed)
qed

text \<open>
  Claim C2. For a logit matrix of shape (B, K) with \<open>K = num_classes\<close> and a label vector of
  length B (with \<open>B > 0\<close> and \<open>K > 0\<close>), \<open>CrossEntropyLoss.construct\<close> returns minus the mean
  over the batch of the per-sample sum over the classes of \<open>target * log_softmax(logits)\<close>,
  where \<open>target = (1 - eps) * onehot(labels) + eps / K\<close>: the column means summed over the
  classes, as the code computes them, are the batch mean of the per-sample sums.
\<close>

theorem CrossEntropyLoss_formula:
  assumes "len targets = nrows inputs" "num_classes self = int (ncols inputs)"
      and "0 < ncols inputs" "0 < nrows inputs"
  shows "CrossEntropyLoss_construct self inputs targets =
     Inr (- ((\<Sum>i<nrows inputs. \<Sum>k<ncols inputs.
               smoothed (eps self) (ncols inputs) targets i k * log_prob inputs i k)
             / real (nrows inputs)))"
  using assms by (rule ce_mean_form)

theorem CrossEntropyLoss_formula_witness:
  "CrossEntropyLoss_construct (CrossEntropyLoss_init 2 (1 / 10) True)
      (Tensor2 1 2 (\<lambda>i j. 0)) (Tensor1 1 (\<lambda>i. 0)) =
   Inr (- ((\<Sum>i<1. \<Sum>k<2. smoothed (1 / 10) 2 (Tensor1 1 (\<lambda>i. 0)) i k
                              * log_prob (Tensor2 1 2 (\<lambda>i j. 0)) i k) / 1))"
  using CrossEntropyLoss_formula [of "Tensor1 1 (\<lambda>i. 0)" "Tensor2 1 2 (\<lambda>i j. 0)"
      "CrossEntropyLoss_init 2 (1 / 10) True"]
  by (simp add: CrossEntropyLoss_init_def)

lemma sample_sum:
  assumes "0 \<le> at1 t i" "at1 t i < int K" "0 < K"
  shows "(\<Sum>k<K. smoothed e K t i k * lp k) =
         lp (true_class t i) - (e / real K) * (\<Sum>k<K. (lp (true_class t i) - lp k))"
proof -
  let ?L = "lp (true_class t i)"
  have y: "true_class t i < K" "int (true_class t i) = at1 t i"
    using assms by (simp_all add: true_class_def)
  have hot: "(\<Sum>k<K. (if at1 t i = int k then lp k else 0)) = ?L"
  proof -
    have "(\<Sum>k<K. (if at1 t i = int k then lp k else 0)) =
          (\<Sum>k\<in>{..<K}. (if k = true_class t i then lp k else 0))"
      using y by (intro sum.cong) auto
    also have "\<dots> = ?L"
      using y by simp
    finally show ?thesis .
  qed
  have pt: "smoothed e K t i k * lp k =
      (1 - e) * (if at1 t i = int k then lp k else 0) + (e / real K) * lp k" for k
    by (simp add: smoothed_def algebra_simps)
  have gap: "(\<Sum>k<K. (?L - lp k)) = real K * ?L - (\<Sum>k<K. lp k)"
    by (simp add: sum_subtractf)
  have "(\<Sum>k<K. smoothed e K t i k * lp k) =
      (\<Sum>k<K. (1 - e) * (if at1 t i = int k then lp k else 0) + (e / real K) * lp k)"
    by (simp only: pt)
  also have "\<dots> = (1 - e) * (\<Sum>k<K. (if at1 t i = int k then lp k else 0))
                   + (e / real K) * (\<Sum>k<K. lp k)"
    by (simp only: sum.distrib sum_distrib_left)
  also have "\<dots> = (1 - e) * ?L + (e / real K) * (\<Sum>k<K. lp k)"
    by (simp only: hot)
  also have "\<dots> = ?L - (e / real K) * (real K * ?L - (\<Sum>k<K. lp k))"
    using assms(3) by (simp add: field_simps)
  also have "\<dots> = ?L - (e / real K) * (\<Sum>k<K. (?L - lp k))"
    by (simp only: gap)
  finally show ?thesis .
qed

lemma sum_sub_scaled:
  "(\<Sum>i<B. f i - c * g i) = (\<Sum>i<B. f i) - (c::real) * (\<Sum>i<B. g i)"
  by (simp add: sum_subtractf sum_distrib_left)

lemma batch_sum:
  assumes r: "labels_in_range t K" and l: "len t = B" and K: "0 < K"
  shows "(\<Sum>i<B. \<Sum>k<K. smoothed e K t i k * lp i k) =
         (\<Sum>i<B. lp i (true_class t i))
           - (e / real K) * (\<Sum>i<B. \<Sum>k<K. (lp i (true_class t i) - lp i k))"
proof -
  have "(\<Sum>i<B. \<Sum>k<K. smoothed e K t i k * lp i k) =
        (\<Sum>i<B. lp i (true_class t i) - (e / real K) * (\<Sum>k<K. (lp i (true_class t i) - lp i k)))"
  proof (rule sum.cong)
    fix i assume "i \<in> {..<B}"
    then have "0 \<le> at1 t i" "at1 t i < int K"
      using r l by (simp_all add: labels_in_range_def)
    then show "(\<Sum>k<K. smoothed e K t i k * lp i k) =
        lp i (true_class t i) - (e / real K) * (\<Sum>k<K. (lp i (true_class t i) - lp i k))"
      using K by (rule sample_sum)
  qed simp
  then show ?thesis
    by (simp only: sum_sub_scaled)
qed


lemma class_gap_total_nonneg:
  assumes "correctly_classified x t"
  shows "0 \<le> (\<Sum>i<nrows x. \<Sum>k<ncols x. (log_prob x i (true_class t i) - log_prob x i k))"
  using assms by (intro sum_nonneg) (simp add: correctly_classified_def)

lemma class_gap_total_pos:
  assumes c: "correctly_classified x t"
      and s: "\<exists>i<nrows x. \<exists>k<ncols x. log_prob x i k < log_prob x i (true_class t i)"
  shows "0 < (\<Sum>i<nrows x. \<Sum>k<ncols x. (log_prob x i (true_class t i) - log_prob x i k))"
proof -
  from s obtain i k where i: "i < nrows x" and k: "k < ncols x"
    and lt: "log_prob x i k < log_prob x i (true_class t i)"
    by blast
  have inner: "0 \<le> (\<Sum>k<ncols x. (log_prob x j (true_class t j) - log_prob x j k))"
    if "j < nrows x" for j
    using c that by (intro sum_nonneg) (simp add: correctly_classified_def)
  have g: "0 < (\<Sum>k<ncols x. (log_prob x i (true_class t i) - log_prob x i k))"
  proof (rule sum_pos2 [where i = k])
    show "finite {..<ncols x}" by simp
    show "k \<in> {..<ncols x}" using k by simp
    show "0 < log_prob x i (true_class t i) - log_prob x i k" using lt by simp
    show "0 \<le> log_prob x i (true_class t i) - log_prob x i k'" if "k' \<in> {..<ncols x}" for k'
      using c i that by (simp add: correctly_classified_def)
  qed
  show ?thesis
  proof (rule sum_pos2 [where i = i])
    show "finite {..<nrows x}" by simp
    show "i \<in> {..<nrows x}" using i by simp
    show "0 < (\<Sum>k<ncols x. (log_prob x i (true_class t i) - log_prob x i k))" by (rule g)
    show "0 \<le> (\<Sum>k<ncols x. (log_prob x j (true_class t j) - log_prob x j k))"
      if "j \<in> {..<nrows x}" for j
      using inner that by simp
  qed
qed

text \<open>
  Claim C7, as amended. For \<open>eps > 0\<close> and a batch in which every example is correctly
  classified (the true class attains the largest log-probability), the loss with smoothing
  factor \<open>eps\<close> is at least the loss with \<open>eps = 0\<close>, and it is strictly larger as soon as
  in one example some class has a log-probability strictly below that of the true class.
\<close>

theorem label_smoothing_not_smaller:
  assumes shape: "len targets = nrows inputs" "0 < ncols inputs" "0 < nrows inputs"
      and range: "labels_in_range targets (ncols inputs)"
      and corr: "correctly_classified inputs targets"
      and e: "0 < e"
  shows "\<exists>a b.
      CrossEntropyLoss_construct (CrossEntropyLoss_init (int (ncols inputs)) e True) inputs targets = Inr a
    \<and> CrossEntropyLoss_construct (CrossEntropyLoss_init (int (ncols inputs)) 0 True) inputs targets = Inr b
    \<and> b \<le> a
    \<and> ((\<exists>i<nrows inputs. \<exists>k<ncols inputs.
            log_prob inputs i k < log_prob inputs i (true_class targets i)) \<longrightarrow> b < a)"
proof -
  let ?B = "nrows inputs" and ?K = "ncols inputs"
  let ?T = "\<Sum>i<?B. log_prob inputs i (true_class targets i)"
  let ?G = "\<Sum>i<?B. \<Sum>k<?K. (log_prob inputs i (true_class targets i) - log_prob inputs i k)"
  let ?a = "- ((?T - (e / real ?K) * ?G) / real ?B)"
  let ?b = "- (?T / real ?B)"
  have S: "(\<Sum>i<?B. \<Sum>k<?K. smoothed e' ?K targets i k * log_prob inputs i k) =
           ?T - (e' / real ?K) * ?G" for e'
    using range shape by (intro batch_sum) simp_all
  have a: "CrossEntropyLoss_construct (CrossEntropyLoss_init (int ?K) e True) inputs targets = Inr ?a"
    using shape by (simp add: ce_mean_form CrossEntropyLoss_init_def S)
  have b: "CrossEntropyLoss_construct (CrossEntropyLoss_init (int ?K) 0 True) inputs targets = Inr ?b"
    using shape by (simp add: ce_mean_form CrossEntropyLoss_init_def S)
  have d: "?a - ?b = e * ?G / (real ?K * real ?B)"
    using shape by (simp add: field_simps)
  have "0 \<le> ?G"
    using corr by (rule class_gap_total_nonneg)
  then have "0 \<le> e * ?G / (real ?K * real ?B)"
    using e by (intro divide_nonneg_nonneg mult_nonneg_nonneg) simp_all
  then have le: "?b \<le> ?a"
    using d by linarith
  have lt: "?b < ?a"
    if "\<exists>i<?B. \<exists>k<?K. log_prob inputs i k < log_prob inputs i (true_class targets i)"
  proof -
    have "0 < ?G"
      using corr that by (rule class_gap_total_pos)
    then have "0 < e * ?G / (real ?K * real ?B)"
      using e shape by (intro divide_pos_pos mult_pos_pos) simp_all
    then show ?thesis
      using d by linarith
  qed
  show ?thesis
    using a b le lt by blast
qed

theorem label_smoothing_not_smaller_witness:
  "\<exists>a b. CrossEntropyLoss_construct (CrossEntropyLoss_init 2 (1 / 10) True)
            (Tensor2 1 2 (\<lambda>i j. if j = 0 then 1 else 0)) (Tensor1 1 (\<lambda>i. 0)) = Inr a
       \<and> CrossEntropyLoss_construct (CrossEntropyLoss_init 2 0 True)
            (Tensor2 1 2 (\<lambda>i j. if j = 0 then 1 else 0)) (Tensor1 1 (\<lambda>i. 0)) = Inr b
       \<and> b < a"
proof -
  let ?x = "Tensor2 1 2 (\<lambda>i j. if j = 0 then 1 else 0 :: real)"
  let ?t = "Tensor1 1 (\<lambda>i. 0 :: int)"
  have r: "labels_in_range ?t (ncols ?x)"
    by (simp add: labels_in_range_def)
  have c: "correctly_classified ?x ?t"
    by (simp add: correctly_classified_def log_prob_def true_class_def)
  have "log_prob ?x 0 1 < log_prob ?x 0 (true_class ?t 0)"
    by (simp add: log_prob_def true_class_def)
  then have s: "\<exists>i<nrows ?x. \<exists>k<ncols ?x. log_prob ?x i k < log_prob ?x i (true_class ?t i)"
    by (intro exI [of _ 0] conjI exI [of _ 1]) simp_all
  have "\<exists>a b. CrossEntropyLoss_construct (CrossEntropyLoss_init (int (ncols ?x)) (1 / 10) True) ?x ?t = Inr a
       \<and> CrossEntropyLoss_construct (CrossEntropyLoss_init (int (ncols ?x)) 0 True) ?x ?t = Inr b
       \<and> b \<le> a
       \<and> ((\<exists>i<nrows ?x. \<exists>k<ncols ?x. log_prob ?x i k < log_prob ?x i (true_class ?t i)) \<longrightarrow> b < a)"
    by (rule label_smoothing_not_smaller [OF _ _ _ r c]) simp_all
  with s show ?thesis
    by auto
qed

lemma ce_uniform_two:
  "CrossEntropyLoss_construct (CrossEntropyLoss_init 2 e True)
      (Tensor2 1 2 (\<lambda>i j. 0)) (Tensor1 1 (\<lambda>i. 0)) = Inr (ln 2)"
proof -
  have "CrossEntropyLoss_construct (CrossEntropyLoss_init 2 e True)
      (Tensor2 1 2 (\<lambda>i j. 0)) (Tensor1 1 (\<lambda>i. 0)) =
     Inr (\<Sum>k::nat<2. - smoothed e 2 (Tensor1 1 (\<lambda>i. 0)) 0 k * log_prob (Tensor2 1 2 (\<lambda>i j. 0)) 0 k)"
    by (simp add: ce_closed CrossEntropyLoss_init_def)
  also have "(\<Sum>k::nat<2. - smoothed e 2 (Tensor1 1 (\<lambda>i. 0)) 0 k * log_prob (Tensor2 1 2 (\<lambda>i j. 0)) 0 k)
      = ln 2"
    by (simp add: lessThan_Suc numeral_2_eq_2 smoothed_def log_prob_def algebra_simps)
  finally show ?thesis .
qed

text \<open>
  The claim as stated (strictly larger for every correctly classified batch) fails for one
  example with the uniform logits \<open>[[0, 0]]\<close> and label 0: the true class attains the largest
  log-probability, and the loss is \<open>ln 2\<close> for \<open>eps = 0.1\<close> and for \<open>eps = 0\<close> alike.
\<close>

theorem label_smoothing_strict_counterexample:
  "CrossEntropyLoss_construct (CrossEntropyLoss_init 2 (1 / 10) True)
      (Tensor2 1 2 (\<lambda>i j. 0)) (Tensor1 1 (\<lambda>i. 0)) = Inr (ln 2)
   \<and> CrossEntropyLoss_construct (CrossEntropyLoss_init 2 0 True)
      (Tensor2 1 2 (\<lambda>i j. 0)) (Tensor1 1 (\<lambda>i. 0)) = Inr (ln 2)
   \<and> correctly_classified (Tensor2 1 2 (\<lambda>i j. 0)) (Tensor1 1 (\<lambda>i. 0))
   \<and> labels_in_range (Tensor1 1 (\<lambda>i. 0)) 2"
  using ce_uniform_two [of "1 / 10"] ce_uniform_two [of 0]
  by (simp add: correctly_classified_def labels_in_range_def log_prob_def)

section \<open>Hard mining in OriTripletLoss\<close>

lemma ori_mask_pos_closed:
  assumes "len targets = bs"
  shows "ori_mask_pos (OriTripletLoss_init m bs) targets =
     Inr (Tensor2 bs bs (\<lambda>i j. if same_label targets i j then 1 else 0))"
  using assms
  by (simp add: ori_mask_pos_def OriTripletLoss_init_def broadcast_to1_def ew2_same_shape
      transpose_ms_def cast_int8_def map2d_def same_label_def)

lemma ori_mask_neg_closed:
  assumes "len targets = bs"
  shows "ori_mask_neg (OriTripletLoss_init m bs) targets =
     Inr (Tensor2 bs bs (\<lambda>i j. if \<not> same_label targets i j then 1 else 0))"
  using assms
  by (simp add: ori_mask_neg_def OriTripletLoss_init_def broadcast_to1_def ew2_same_shape
      transpose_ms_def cast_int8_def map2d_def same_label_def)

lemma of_int_mask: "real_of_int (if c then 1 else 0) = (if c then 1 else 0)"
  by simp

lemma ori_dist_ap_closed:
  assumes "0 < bs"
  shows "ori_dist_ap (Tensor2 bs bs d) (Tensor2 bs bs (\<lambda>i j. if same_label t i j then 1 else 0)) =
     Inr (Tensor1 bs (hardest_pos d t bs))"
  using assms
  by (simp add: ori_dist_ap_def mul_int8_def ew2_same_shape reduce_max_keep_def squeeze_def
      hardest_pos_def [abs_def] of_int_mask)

lemma ori_dist_an_closed:
  assumes "0 < bs"
  shows "ori_dist_an (Tensor2 bs bs d) (Tensor2 bs bs (\<lambda>i j. if same_label t i j then 1 else 0))
            (Tensor2 bs bs (\<lambda>i j. if \<not> same_label t i j then 1 else 0)) =
     Inr (Tensor1 bs (hardest_neg d t bs))"
  using assms
  by (simp add: ori_dist_an_def mul_int8_def ew2_same_shape reduce_max_keep_def
      reduce_min_keep_def squeeze_def hardest_neg_def [abs_def] of_int_mask ew2_def)


lemma masked_max:
  fixes f :: "nat \<Rightarrow> real"
  assumes fin: "finite S" and ex: "\<exists>j\<in>S. P j" and nn: "\<forall>j\<in>S. 0 \<le> f j"
  shows "Max ((\<lambda>l. f l * (if P l then 1 else 0)) ` S) = Max (f ` {l \<in> S. P l})"
proof (rule Max_eqI)
  let ?A = "f ` {l \<in> S. P l}"
  have finA: "finite ?A" using fin by simp
  from ex obtain j0 where j0: "j0 \<in> S" "P j0" by blast
  then have neA: "?A \<noteq> {}" by blast
  show "finite ((\<lambda>l. f l * (if P l then 1 else 0)) ` S)"
    using fin by simp
  show "y \<le> Max ?A" if "y \<in> (\<lambda>l. f l * (if P l then 1 else 0)) ` S" for y
  proof -
    from that obtain l where l: "l \<in> S" "y = f l * (if P l then 1 else 0)" by blast
    show ?thesis
    proof (cases "P l")
      case True
      then have "y \<in> ?A" using l by simp
      with finA show ?thesis by (rule Max_ge)
    next
      case False
      then have "y = 0" using l by simp
      also have "0 \<le> f j0" using nn j0 by simp
      also have "f j0 \<le> Max ?A" using j0 by (intro Max_ge [OF finA]) simp
      finally show ?thesis .
    qed
  qed
  have "Max ?A \<in> ?A" using finA neA by (rule Max_in)
  then obtain l where "l \<in> S" "P l" "Max ?A = f l" by blast
  then show "Max ?A \<in> (\<lambda>l. f l * (if P l then 1 else 0)) ` S"
    by (intro image_eqI [of _ _ l]) simp_all
qed

lemma masked_min:
  fixes f :: "nat \<Rightarrow> real"
  assumes fin: "finite S" and ex: "\<exists>j\<in>S. \<not> P j" and nn: "\<forall>j\<in>S. 0 \<le> f j"
  shows "Min ((\<lambda>l. Max (f ` {l \<in> S. \<not> P l}) * (if P l then 1 else 0) + f l) ` S) =
         Min (f ` {l \<in> S. \<not> P l})"
proof (rule Min_eqI)
  let ?A = "f ` {l \<in> S. \<not> P l}"
  let ?h = "\<lambda>l. Max ?A * (if P l then 1 else 0) + f l"
  have finA: "finite ?A" using fin by simp
  from ex obtain j0 where j0: "j0 \<in> S" "\<not> P j0" by blast
  then have neA: "?A \<noteq> {}" by blast
  have "Min ?A \<in> ?A" using finA neA by (rule Min_in)
  with finA have mM: "Min ?A \<le> Max ?A"
    by (rule Max_ge)
  show "finite (?h ` S)"
    using fin by simp
  show "Min ?A \<le> y" if "y \<in> ?h ` S" for y
  proof -
    from that obtain l where l: "l \<in> S" "y = ?h l" by blast
    show ?thesis
    proof (cases "P l")
      case True
      have "Min ?A \<le> Max ?A" by (rule mM)
      also have "\<dots> \<le> Max ?A + f l" using nn l by simp
      also have "\<dots> = y" using l True by simp
      finally show ?thesis .
    next
      case False
      then have "y \<in> ?A" using l by simp
      with finA show ?thesis by (rule Min_le)
    qed
  qed
  have "Min ?A \<in> ?A" using finA neA by (rule Min_in)
  then obtain l where "l \<in> S" "\<not> P l" "Min ?A = f l" by blast
  then show "Min ?A \<in> ?h ` S"
    by (intro image_eqI [of _ _ l]) simp_all
qed


lemma hardest_pos_eq:
  assumes i: "i < n" and nn: "\<forall>l<n. 0 \<le> d i l"
  shows "hardest_pos d t n i = Max ((\<lambda>j. d i j) ` {j. j < n \<and> at1 t j = at1 t i})"
proof -
  have "hardest_pos d t n i = Max ((\<lambda>j. d i j) ` {l \<in> {..<n}. same_label t i l})"
    unfolding hardest_pos_def
  proof (rule masked_max)
    show "\<exists>j\<in>{..<n}. same_label t i j"
      using i by (auto simp: same_label_def)
  qed (use nn in simp_all)
  also have "{l \<in> {..<n}. same_label t i l} = {j. j < n \<and> at1 t j = at1 t i}"
    by (auto simp: same_label_def)
  finally show ?thesis .
qed

lemma hardest_neg_eq:
  assumes ex: "\<exists>j<n. at1 t j \<noteq> at1 t i" and nn: "\<forall>l<n. 0 \<le> d i l"
  shows "hardest_neg d t n i = Min ((\<lambda>j. d i j) ` {j. j < n \<and> at1 t j \<noteq> at1 t i})"
proof -
  have ex': "\<exists>j\<in>{..<n}. \<not> same_label t i j"
    using ex by (auto simp: same_label_def)
  have nn': "\<forall>j\<in>{..<n}. 0 \<le> d i j"
    using nn by simp
  have mx: "Max ((\<lambda>l. d i l * (if \<not> same_label t i l then 1 else 0)) ` {..<n}) =
            Max ((\<lambda>j. d i j) ` {l \<in> {..<n}. \<not> same_label t i l})"
    using ex' nn' by (intro masked_max) simp_all
  have "hardest_neg d t n i = Min ((\<lambda>j. d i j) ` {l \<in> {..<n}. \<not> same_label t i l})"
    unfolding hardest_neg_def mx using ex' nn' by (intro masked_min) simp_all
  also have "{l \<in> {..<n}. \<not> same_label t i l} = {j. j < n \<and> at1 t j \<noteq> at1 t i}"
    by (auto simp: same_label_def)
  finally show ?thesis .
qed

lemma clipped_dist_nonneg: "0 \<le> clipped_dist hi x y i j"
  by (simp add: clipped_dist_def)

text \<open>
  Claim C1. For a feature matrix with \<open>batch_size\<close> rows and a label vector of that length
  in which every anchor has a sample of a different label (and, being a sample itself, one
  of the same label), \<open>OriTripletLoss.construct\<close> computes for each anchor \<open>i\<close> the
  hardest-positive distance \<open>dist_ap[i]\<close>, the maximum of the clipped distance \<open>dist[i][j]\<close>
  over all \<open>j\<close> with \<open>targets[j] = targets[i]\<close>, and the hardest-negative distance
  \<open>dist_an[i]\<close>, the minimum of \<open>dist[i][j]\<close> over all \<open>j\<close> with
  \<open>targets[j] \<noteq> targets[i]\<close>, the latter being the value of the masked expression
  \<open>min\<^sub>j (rowmax (dist * mask_neg) * mask_pos + dist)\<close>.
\<close>

theorem hardest_positive_negative:
  assumes shape: "nrows inputs = bs" "len targets = bs"
      and pos: "0 < bs"
      and neg: "\<forall>i<bs. \<exists>j<bs. at1 targets j \<noteq> at1 targets i"
  shows "\<exists>dmat mask_pos mask_neg dist_ap dist_an.
      ori_dist (OriTripletLoss_init m bs) inputs = Inr dmat
    \<and> ori_mask_pos (OriTripletLoss_init m bs) targets = Inr mask_pos
    \<and> ori_mask_neg (OriTripletLoss_init m bs) targets = Inr mask_neg
    \<and> ori_dist_ap dmat mask_pos = Inr dist_ap
    \<and> ori_dist_an dmat mask_pos mask_neg = Inr dist_an
    \<and> len dist_ap = bs \<and> len dist_an = bs
    \<and> (\<forall>i<bs.
          at1 dist_ap i = Max ((\<lambda>j. at2 dmat i j) ` {j. j < bs \<and> at1 targets j = at1 targets i})
        \<and> at1 dist_an i = Min ((\<lambda>j. at2 dmat i j) ` {j. j < bs \<and> at1 targets j \<noteq> at1 targets i})
        \<and> at1 dist_an i =
            Min ((\<lambda>j. Max ((\<lambda>l. at2 dmat i l * real_of_int (at2 mask_neg i l)) ` {..<bs})
                        * real_of_int (at2 mask_pos i j) + at2 dmat i j) ` {..<bs}))"
proof -
  let ?d = "\<lambda>i j. clipped_dist 100000000 inputs inputs i j"
  have ap: "hardest_pos ?d targets bs i =
      Max ((\<lambda>j. ?d i j) ` {j. j < bs \<and> at1 targets j = at1 targets i})" if "i < bs" for i
    using that by (intro hardest_pos_eq) (simp_all add: clipped_dist_nonneg)
  have an: "hardest_neg ?d targets bs i =
      Min ((\<lambda>j. ?d i j) ` {j. j < bs \<and> at1 targets j \<noteq> at1 targets i})" if "i < bs" for i
    using that neg by (intro hardest_neg_eq) (simp_all add: clipped_dist_nonneg)
  show ?thesis
    using shape pos ap an
    by (simp add: ori_dist_closed ori_mask_pos_closed ori_mask_neg_closed ori_dist_ap_closed
        ori_dist_an_closed of_int_mask)
        (simp add: hardest_neg_def)
qed


theorem hardest_positive_negative_witness:
  "\<exists>dmat mask_pos mask_neg dist_ap dist_an.
      ori_dist (OriTripletLoss_init (3 / 10) 2) (Tensor2 2 1 (\<lambda>i j. if i = 0 then 0 else 3)) = Inr dmat
    \<and> ori_mask_pos (OriTripletLoss_init (3 / 10) 2) (Tensor1 2 (\<lambda>i. int i)) = Inr mask_pos
    \<and> ori_mask_neg (OriTripletLoss_init (3 / 10) 2) (Tensor1 2 (\<lambda>i. int i)) = Inr mask_neg
    \<and> ori_dist_ap dmat mask_pos = Inr dist_ap
    \<and> ori_dist_an dmat mask_pos mask_neg = Inr dist_an
    \<and> at1 dist_ap 0 = Max ((\<lambda>j. at2 dmat 0 j) ` {j. j < 2 \<and> int j = 0})
    \<and> at1 dist_an 0 = Min ((\<lambda>j. at2 dmat 0 j) ` {j. j < 2 \<and> int j \<noteq> 0})"
proof -
  let ?x = "Tensor2 2 1 (\<lambda>i j. if i = 0 then 0 else 3 :: real)"
  let ?t = "Tensor1 2 (\<lambda>i. int i)"
  have neg: "\<forall>i<2. \<exists>j<2. at1 ?t j \<noteq> at1 ?t i"
  proof (intro allI impI)
    fix i :: nat assume "i < 2"
    show "\<exists>j<2. at1 ?t j \<noteq> at1 ?t i"
      by (cases "i = 0") (auto intro: exI [of _ 1] exI [of _ 0])
  qed
  have "nrows ?x = 2" "len ?t = 2" "0 < (2::nat)"
    by simp_all
  from hardest_positive_negative [OF this neg, of "3 / 10"]
  obtain dmat mask_pos mask_neg dist_ap dist_an where
      a: "ori_dist (OriTripletLoss_init (3 / 10) 2) ?x = Inr dmat"
         "ori_mask_pos (OriTripletLoss_init (3 / 10) 2) ?t = Inr mask_pos"
         "ori_mask_neg (OriTripletLoss_init (3 / 10) 2) ?t = Inr mask_neg"
         "ori_dist_ap dmat mask_pos = Inr dist_ap"
         "ori_dist_an dmat mask_pos mask_neg = Inr dist_an"
    and b: "\<forall>i<2.
          at1 dist_ap i = Max ((\<lambda>j. at2 dmat i j) ` {j. j < 2 \<and> at1 ?t j = at1 ?t i})
        \<and> at1 dist_an i = Min ((\<lambda>j. at2 dmat i j) ` {j. j < 2 \<and> at1 ?t j \<noteq> at1 ?t i})
        \<and> at1 dist_an i =
            Min ((\<lambda>j. Max ((\<lambda>l. at2 dmat i l * real_of_int (at2 mask_neg i l)) ` {..<2})
                        * real_of_int (at2 mask_pos i j) + at2 dmat i j) ` {..<2})"
    by blast
  from b have "at1 dist_ap 0 = Max ((\<lambda>j. at2 dmat 0 j) ` {j. j < 2 \<and> int j = 0})"
    "at1 dist_an 0 = Min ((\<lambda>j. at2 dmat 0 j) ` {j. j < 2 \<and> int j \<noteq> 0})"
    by simp_all
  with a show ?thesis
    by blast
qed

section \<open>Permutation invariance of OriTripletLoss\<close>

lemma MarginRankingLoss_closed:
  assumes "len input1 = len y" "len input2 = len y" "0 < len y"
  shows "MarginRankingLoss_construct self input1 input2 y =
     Inr (Tensor1 1 (\<lambda>i.
        (\<Sum>l<len y. max 0 (- (at1 input1 l - at1 input2 l) * at1 y l + margin self)) / real (len y)))"
proof -
  have m: "\<And>t::real. t * (if 0 \<le> t then 1 else 0) = max 0 t"
    by (simp add: max_def)
  show ?thesis
    using assms
    by (simp add: MarginRankingLoss_construct_def ew1_same_shape map1d_def Let_def m
        reduce_mean_keep_def)
qed

lemma OriTripletLoss_closed:
  assumes "nrows inputs = bs" "len targets = bs"
  shows "OriTripletLoss_construct (OriTripletLoss_init mg bs) inputs targets =
     (if bs = 0 then Inl EmptyReduce
      else if bs = 1 then Inl ZeroDimIndex
      else Inr (hinge_mean mg (\<lambda>i j. clipped_dist 100000000 inputs inputs i j) targets bs))"
proof (cases "bs = 0")
  case True
  then show ?thesis
    using assms
    by (simp add: OriTripletLoss_construct_def ori_dist_closed ori_mask_pos_closed
        ori_mask_neg_closed ori_dist_ap_def mul_int8_def ew2_same_shape reduce_max_keep_def)
next
  case False
  then have pos: "0 < bs" by simp
  have e: "expand (OriTripletLoss_init mg bs) = (bs, bs)"
    "ranking_loss (OriTripletLoss_init mg bs) = \<lparr>margin = mg\<rparr>"
    by (simp_all add: OriTripletLoss_init_def MarginRankingLoss_init_def)
  show ?thesis
    using assms pos
    by (simp add: OriTripletLoss_construct_def ori_dist_closed ori_mask_pos_closed
        ori_mask_neg_closed ori_dist_ap_closed ori_dist_an_closed map1d_def
        MarginRankingLoss_closed e hinge_mean_def)
qed


lemma clipped_dist_permute:
  "clipped_dist hi (permute_rows p x) (permute_rows p x) i j = clipped_dist hi x x (p i) (p j)"
  by (simp add: clipped_dist_def sqnorm_def dotp_def permute_rows_def)

lemma reindex_image:
  assumes "bij_betw p S S" "\<forall>l\<in>S. F l = G (p l)"
  shows "F ` S = G ` S"
proof -
  have "F ` S = (\<lambda>l. G (p l)) ` S"
    using assms(2) by (intro image_cong) simp_all
  also have "\<dots> = G ` (p ` S)"
    by (simp add: image_image)
  also have "p ` S = S"
    using assms(1) by (rule bij_betw_imp_surj_on)
  finally show ?thesis .
qed

lemma same_label_permute:
  assumes lab: "\<forall>i<n. at1 t (p i) = at1 t i" and "i < n" "l < n"
  shows "same_label t i l = same_label t (p i) (p l)"
  using assms by (simp add: same_label_def)

lemma hardest_pos_permute:
  assumes bij: "bij_betw p {..<n} {..<n}"
      and lab: "\<forall>i<n. at1 t (p i) = at1 t i"
      and i: "i < n"
  shows "hardest_pos (\<lambda>a b. d (p a) (p b)) t n i = hardest_pos d t n (p i)"
  unfolding hardest_pos_def
proof (rule arg_cong [where f = Max], rule reindex_image [OF bij], rule ballI)
  fix l assume "l \<in> {..<n}"
  then have "same_label t i l = same_label t (p i) (p l)"
    using lab i by (intro same_label_permute) simp_all
  then show "d (p i) (p l) * (if same_label t i l then 1 else 0) =
             d (p i) (p l) * (if same_label t (p i) (p l) then 1 else 0)"
    by simp
qed

lemma hardest_neg_permute:
  assumes bij: "bij_betw p {..<n} {..<n}"
      and lab: "\<forall>i<n. at1 t (p i) = at1 t i"
      and i: "i < n"
  shows "hardest_neg (\<lambda>a b. d (p a) (p b)) t n i = hardest_neg d t n (p i)"
proof -
  have sl: "same_label t i l = same_label t (p i) (p l)" if "l \<in> {..<n}" for l
    using lab i that by (intro same_label_permute) simp_all
  have mx: "Max ((\<lambda>l'. d (p i) (p l') * (if \<not> same_label t i l' then 1 else 0)) ` {..<n}) =
            Max ((\<lambda>l'. d (p i) l' * (if \<not> same_label t (p i) l' then 1 else 0)) ` {..<n})"
    by (rule arg_cong [where f = Max], rule reindex_image [OF bij]) (simp add: sl)
  show ?thesis
    unfolding hardest_neg_def mx
    by (rule arg_cong [where f = Min], rule reindex_image [OF bij]) (simp add: sl)
qed

lemma hinge_mean_permute:
  assumes bij: "bij_betw p {..<n} {..<n}"
      and lab: "\<forall>i<n. at1 t (p i) = at1 t i"
  shows "hinge_mean mg (\<lambda>a b. d (p a) (p b)) t n = hinge_mean mg d t n"
proof -
  let ?H = "\<lambda>i. max 0 (- (hardest_neg d t n i - hardest_pos d t n i) * 1 + mg)"
  have "(\<Sum>i<n. max 0 (- (hardest_neg (\<lambda>a b. d (p a) (p b)) t n i
                            - hardest_pos (\<lambda>a b. d (p a) (p b)) t n i) * 1 + mg)) =
        (\<Sum>i<n. ?H (p i))"
    using bij lab by (intro sum.cong) (simp_all add: hardest_neg_permute hardest_pos_permute)
  also have "\<dots> = (\<Sum>i<n. ?H i)"
    using bij by (rule sum.reindex_bij_betw)
  finally show ?thesis
    by (simp add: hinge_mean_def)
qed

text \<open>
  Claim C8. For a feature matrix with \<open>batch_size\<close> rows, a label vector of that length and a
  permutation \<open>p\<close> of the batch indices that only moves samples between positions holding
  equal labels (\<open>targets[p i] = targets[i]\<close>), \<open>OriTripletLoss.construct\<close> on the
  row-permuted inputs and the same targets returns what it returns on the original inputs;
  for a batch of at least two samples that is a loss value.
\<close>

theorem OriTripletLoss_permutation_invariant:
  assumes shape: "nrows inputs = bs" "len targets = bs"
      and bij: "bij_betw p {..<bs} {..<bs}"
      and lab: "\<forall>i<bs. at1 targets (p i) = at1 targets i"
  shows "OriTripletLoss_construct (OriTripletLoss_init mg bs) (permute_rows p inputs) targets =
         OriTripletLoss_construct (OriTripletLoss_init mg bs) inputs targets
       \<and> (2 \<le> bs \<longrightarrow>
            (\<exists>v. OriTripletLoss_construct (OriTripletLoss_init mg bs) inputs targets = Inr v))"
proof -
  have "nrows (permute_rows p inputs) = bs"
    using shape by (simp add: permute_rows_def)
  moreover have "hinge_mean mg
        (\<lambda>i j. clipped_dist 100000000 (permute_rows p inputs) (permute_rows p inputs) i j) targets bs =
      hinge_mean mg (\<lambda>i j. clipped_dist 100000000 inputs inputs i j) targets bs"
    unfolding clipped_dist_permute using bij lab by (rule hinge_mean_permute)
  ultimately show ?thesis
    using shape by (simp add: OriTripletLoss_closed)
qed


theorem OriTripletLoss_permutation_invariant_witness:
  "OriTripletLoss_construct (OriTripletLoss_init (3 / 10) 3)
      (permute_rows (\<lambda>i. if i = 0 then 1 else if i = 1 then 0 else i)
         (Tensor2 3 1 (\<lambda>i j. if i = 0 then 0 else if i = 1 then 3 else 5)))
      (Tensor1 3 (\<lambda>i. if i = 2 then 1 else 0)) =
   OriTripletLoss_construct (OriTripletLoss_init (3 / 10) 3)
      (Tensor2 3 1 (\<lambda>i j. if i = 0 then 0 else if i = 1 then 3 else 5))
      (Tensor1 3 (\<lambda>i. if i = 2 then 1 else 0))
   \<and> (\<exists>v. OriTripletLoss_construct (OriTripletLoss_init (3 / 10) 3)
      (Tensor2 3 1 (\<lambda>i j. if i = 0 then 0 else if i = 1 then 3 else 5))
      (Tensor1 3 (\<lambda>i. if i = 2 then 1 else 0)) = Inr v)"
proof -
  let ?p = "\<lambda>i::nat. if i = 0 then 1 else if i = 1 then 0 else i"
  let ?x = "Tensor2 3 1 (\<lambda>i j. if i = 0 then 0 else if i = 1 then 3 else 5 :: real)"
  let ?t = "Tensor1 3 (\<lambda>i. if i = 2 then 1 else 0 :: int)"
  have bij: "bij_betw ?p {..<3} {..<3}"
    by (rule bij_betw_byWitness [where f' = ?p]) auto
  have lab: "\<forall>i<3. at1 ?t (?p i) = at1 ?t i"
    by simp
  have "nrows ?x = 3" "len ?t = 3"
    by simp_all
  from OriTripletLoss_permutation_invariant [OF this bij lab, of "3 / 10"]
  show ?thesis
    by simp
qed

section \<open>Properties of pdist_ms over binary32 values\<close>











end
